theory Spec2Isabelle
  imports Main
begin

section \<open>Strings and numbers of the Go runtime\<close>

text \<open>
  A Go string is a sequence of bytes; it is modelled as \<^typ>\<open>string\<close>. The functions of
  package \<open>strings\<close> and \<open>strconv\<close> that the session engine calls are written out here.
  The Go type \<open>int\<close> is 64 bits wide: \<open>Atoi\<close> fails outside that range and sums wrap
  around.

  The standard library is not part of the repository. What it computes with the Unicode
  tables, with \<open>net/mail\<close> and with a regular expression over Unicode classes is taken as
  given: these are the fields of \<open>Lib\<close>, and every theorem holds for whatever they compute.
  \<open>mailParseAddress\<close> returns the \<open>Address\<close> field of the parsed address, \<open>None\<close> on error;
  \<open>mailReadMessage\<close> returns the headers (joined) and the body, \<open>None\<close> on error.
  \<open>ToLower\<close>, \<open>ToUpper\<close>, \<open>EqualFold\<close>, \<open>TrimSpace\<close> and \<open>Fields\<close> of package \<open>strings\<close>
  each have a fast path for strings without a byte of \<open>0x80\<close> or more, which is written out
  below; on any other string they map, fold and split by the Unicode tables, and the
  \<open>unicode...\<close> fields of \<open>Lib\<close> stand for what they return there.
\<close>

record Lib =
  mailParseAddress :: "string \<Rightarrow> string option"
  mailReadMessage :: "string \<Rightarrow> ((string \<times> string) list \<times> string) option"
  domainRegexMatch :: "string \<Rightarrow> bool"
  utf8Runes :: "string \<Rightarrow> nat list"
  unicodeIsLetter :: "nat \<Rightarrow> bool"
  unicodeIsNumber :: "nat \<Rightarrow> bool"
  unicodeToLower :: "string \<Rightarrow> string"
  unicodeToUpper :: "string \<Rightarrow> string"
  unicodeEqualFold :: "string \<Rightarrow> string \<Rightarrow> bool"
  unicodeTrimSpace :: "string \<Rightarrow> string"
  unicodeFields :: "string \<Rightarrow> string list"

definition CRLF :: string where
  "CRLF = [CHR 0x0D, CHR 0x0A]"

definition isDigit :: "char \<Rightarrow> bool" where
  "isDigit c = (c \<in> set ''0123456789'')"

definition isLowerAZ :: "char \<Rightarrow> bool" where
  "isLowerAZ c = (c \<in> set ''abcdefghijklmnopqrstuvwxyz'')"

definition isSpaceC :: "char \<Rightarrow> bool" where
  "isSpaceC c = (c \<in> set [CHR 0x09, CHR 0x0A, CHR 0x0B, CHR 0x0C, CHR 0x0D, CHR 0x20])"

definition toLowerC :: "char \<Rightarrow> char" where
  "toLowerC c = (case map_of (zip ''ABCDEFGHIJKLMNOPQRSTUVWXYZ'' ''abcdefghijklmnopqrstuvwxyz'') c of
                   Some l \<Rightarrow> l | None \<Rightarrow> c)"

definition toUpperC :: "char \<Rightarrow> char" where
  "toUpperC c = (case map_of (zip ''abcdefghijklmnopqrstuvwxyz'' ''ABCDEFGHIJKLMNOPQRSTUVWXYZ'') c of
                   Some u \<Rightarrow> u | None \<Rightarrow> c)"

text \<open>Whether every byte is below \<open>utf8.RuneSelf\<close>, that is \<open>0x80\<close>.\<close>

definition isASCII :: "string \<Rightarrow> bool" where
  "isASCII s = list_all (\<lambda>c. \<not> digit7 c) s"

definition ToLower :: "Lib \<Rightarrow> string \<Rightarrow> string" where
  "ToLower lib s = (if isASCII s then map toLowerC s else unicodeToLower lib s)"

definition ToUpper :: "Lib \<Rightarrow> string \<Rightarrow> string" where
  "ToUpper lib s = (if isASCII s then map toUpperC s else unicodeToUpper lib s)"

definition EqualFold :: "Lib \<Rightarrow> string \<Rightarrow> string \<Rightarrow> bool" where
  "EqualFold lib a b =
     (if isASCII a \<and> isASCII b then map toLowerC a = map toLowerC b else unicodeEqualFold lib a b)"

definition HasPrefix :: "string \<Rightarrow> string \<Rightarrow> bool" where
  "HasPrefix s p = (take (length p) s = p)"

definition HasSuffix :: "string \<Rightarrow> string \<Rightarrow> bool" where
  "HasSuffix s p = (length p \<le> length s \<and> drop (length s - length p) s = p)"

definition TrimPrefix :: "string \<Rightarrow> string \<Rightarrow> string" where
  "TrimPrefix s p = (if HasPrefix s p then drop (length p) s else s)"

text \<open>\<open>strings.Index\<close>: the position of the first occurrence, \<open>None\<close> for Go's \<open>-1\<close>.\<close>

fun Index :: "string \<Rightarrow> string \<Rightarrow> nat option" where
  "Index [] p = (if p = [] then Some 0 else None)"
| "Index (c # cs) p =
     (if HasPrefix (c # cs) p then Some 0
      else (case Index cs p of None \<Rightarrow> None | Some i \<Rightarrow> Some (Suc i)))"

definition Contains :: "string \<Rightarrow> string \<Rightarrow> bool" where
  "Contains s p = (Index s p \<noteq> None)"

text \<open>\<open>strings.LastIndex\<close> for a one-byte separator.\<close>

fun LastIndexByte :: "string \<Rightarrow> char \<Rightarrow> nat option" where
  "LastIndexByte [] x = None"
| "LastIndexByte (c # cs) x =
     (case LastIndexByte cs x of
        Some i \<Rightarrow> Some (Suc i)
      | None \<Rightarrow> (if c = x then Some 0 else None))"

definition TrimLeftSet :: "string \<Rightarrow> string \<Rightarrow> string" where
  "TrimLeftSet s cutset = dropWhile (\<lambda>c. c \<in> set cutset) s"

definition TrimSet :: "string \<Rightarrow> string \<Rightarrow> string" where
  "TrimSet s cutset = rev (dropWhile (\<lambda>c. c \<in> set cutset) (rev (dropWhile (\<lambda>c. c \<in> set cutset) s)))"

definition TrimSpace :: "Lib \<Rightarrow> string \<Rightarrow> string" where
  "TrimSpace lib s =
     (if isASCII s then rev (dropWhile isSpaceC (rev (dropWhile isSpaceC s)))
      else unicodeTrimSpace lib s)"

text \<open>\<open>strings.Fields\<close>: on its fast path, the maximal runs of non-space bytes.\<close>

fun fieldsAcc :: "string \<Rightarrow> string \<Rightarrow> string list" where
  "fieldsAcc cur [] = (if cur = [] then [] else [cur])"
| "fieldsAcc cur (c # cs) =
     (if isSpaceC c then (if cur = [] then fieldsAcc [] cs else cur # fieldsAcc [] cs)
      else fieldsAcc (cur @ [c]) cs)"

definition Fields :: "Lib \<Rightarrow> string \<Rightarrow> string list" where
  "Fields lib s = (if isASCII s then fieldsAcc [] s else unicodeFields lib s)"

text \<open>\<open>strings.Split\<close> and \<open>strings.Join\<close> for a one-byte separator.\<close>

fun splitAcc :: "char \<Rightarrow> string \<Rightarrow> string \<Rightarrow> string list" where
  "splitAcc sep cur [] = [cur]"
| "splitAcc sep cur (c # cs) =
     (if c = sep then cur # splitAcc sep [] cs else splitAcc sep (cur @ [c]) cs)"

definition SplitByte :: "string \<Rightarrow> char \<Rightarrow> string list" where
  "SplitByte s sep = splitAcc sep [] s"

fun Join :: "string list \<Rightarrow> string \<Rightarrow> string" where
  "Join [] sep = []"
| "Join [x] sep = x"
| "Join (x # y # ys) sep = x @ sep @ Join (y # ys) sep"

definition digitVal :: "char \<Rightarrow> int" where
  "digitVal c =
     (case map_of [(CHR ''0'', 0), (CHR ''1'', 1), (CHR ''2'', 2), (CHR ''3'', 3), (CHR ''4'', 4),
                   (CHR ''5'', 5), (CHR ''6'', 6), (CHR ''7'', 7), (CHR ''8'', 8), (CHR ''9'', 9)] c of
        Some v \<Rightarrow> v | None \<Rightarrow> 0)"

definition digitsVal :: "string \<Rightarrow> int" where
  "digitsVal ds = foldl (\<lambda>acc d. 10 * acc + digitVal d) 0 ds"

definition maxInt :: int where
  "maxInt = 9223372036854775807"

text \<open>\<open>strconv.Atoi\<close>: an optional sign, then decimal digits only; \<open>None\<close> is the error return.\<close>

definition Atoi :: "string \<Rightarrow> int option" where
  "Atoi s =
     (let neg = (s \<noteq> [] \<and> hd s = CHR ''-'');
          ds = (if s \<noteq> [] \<and> (hd s = CHR ''-'' \<or> hd s = CHR ''+'') then tl s else s)
      in if ds = [] \<or> \<not> list_all isDigit ds then None
         else (let v = digitsVal ds
               in if neg then (if v \<le> maxInt + 1 then Some (- v) else None)
                  else (if v \<le> maxInt then Some v else None)))"

text \<open>The verb \<open>%d\<close> of \<open>fmt.Sprintf\<close>.\<close>

definition digitChar :: "int \<Rightarrow> char" where
  "digitChar d =
     (case map_of [(0, CHR ''0''), (1, CHR ''1''), (2, CHR ''2''), (3, CHR ''3''), (4, CHR ''4''),
                   (5, CHR ''5''), (6, CHR ''6''), (7, CHR ''7''), (8, CHR ''8''), (9, CHR ''9'')] d of
        Some c \<Rightarrow> c | None \<Rightarrow> CHR ''0'')"

function intDigits :: "int \<Rightarrow> string" where
  "intDigits i =
     (if i < 10 then [digitChar i]
      else intDigits (i div 10) @ [digitChar (i mod 10)])"
  by pat_completeness auto
termination
  by (relation "measure nat") auto

declare intDigits.simps [simp del]

definition fmtInt :: "int \<Rightarrow> string" where
  "fmtInt i = (if i < 0 then CHR ''-'' # intDigits (- i) else intDigits i)"

section \<open>Package smtp: synthetic errors (errors.go)\<close>

definition Code421 :: int where
  "Code421 = 421"

definition Code250 :: int where
  "Code250 = 250"

definition errorMessages :: "(int \<times> string) list" where
  "errorMessages =
     [(421, ''Service not available, closing transmission channel''),
      (450, ''Requested mail action not taken: mailbox unavailable''),
      (451, ''Requested action aborted: local error in processing''),
      (452, ''Requested action not taken: insufficient system storage''),
      (500, ''Syntax error, command unrecognized''),
      (501, ''Syntax error in parameters or arguments''),
      (502, ''Command not implemented''),
      (503, ''Bad sequence of commands''),
      (504, ''Command parameter not implemented''),
      (521, ''Machine does not accept mail''),
      (535, ''Authentication failed''),
      (550, ''Requested action not taken: mailbox unavailable''),
      (551, ''User not local; please try forward path''),
      (552, ''Requested mail action aborted: exceeded storage allocation''),
      (553, ''Requested action not taken: mailbox name not allowed''),
      (554, ''Transaction failed''),
      (571, ''Blocked - see https://example.com/blocked'')]"

definition GetErrorMessage :: "int \<Rightarrow> string" where
  "GetErrorMessage code =
     (case map_of errorMessages code of Some msg \<Rightarrow> msg | None \<Rightarrow> ''Unknown error'')"

record ErrorResult =
  Code :: int
  Enhanced :: string
  Message :: string

text \<open>
  The two patterns of errors.go, matched against the start of the lower-cased address:
  \<open>^([a-z]+)(\d{3})@\<close> and \<open>^([a-z]+)(\d{3})_(\d+)\.(\d+)\.(\d+)@\<close>.
  Each character class excludes the byte that must follow it, so at most one split of the
  input matches and the matcher reads the runs greedily. A match returns the capture groups.
\<close>

definition basicRegex :: "string \<Rightarrow> (string \<times> string) option" where
  "basicRegex email =
     (let verb = takeWhile isLowerAZ email;
          r1 = dropWhile isLowerAZ email;
          code = take 3 r1;
          r2 = drop 3 r1
      in if verb \<noteq> [] \<and> length code = 3 \<and> list_all isDigit code \<and> HasPrefix r2 ''@''
         then Some (verb, code) else None)"

definition extendedRegex :: "string \<Rightarrow> (string \<times> string \<times> string \<times> string \<times> string) option" where
  "extendedRegex email =
     (let verb = takeWhile isLowerAZ email;
          r1 = dropWhile isLowerAZ email;
          code = take 3 r1;
          r2 = drop 3 r1;
          x = takeWhile isDigit (drop 1 r2);
          r3 = dropWhile isDigit (drop 1 r2);
          y = takeWhile isDigit (drop 1 r3);
          r4 = dropWhile isDigit (drop 1 r3);
          z = takeWhile isDigit (drop 1 r4);
          r5 = dropWhile isDigit (drop 1 r4)
      in if verb \<noteq> [] \<and> length code = 3 \<and> list_all isDigit code
            \<and> HasPrefix r2 ''_'' \<and> x \<noteq> [] \<and> HasPrefix r3 ''.'' \<and> y \<noteq> []
            \<and> HasPrefix r4 ''.'' \<and> z \<noteq> [] \<and> HasPrefix r5 ''@''
         then Some (verb, code, x, y, z) else None)"

definition parsePrefixedError :: "Lib \<Rightarrow> string \<Rightarrow> string \<Rightarrow> ErrorResult option" where
  "parsePrefixedError lib pfx email0 =
     (let email = ToLower lib email0;
          ext = (case extendedRegex email of
                   Some (verb, code, x, y, z) \<Rightarrow>
                     (if EqualFold lib verb pfx then
                        (case Atoi code of
                           Some c \<Rightarrow>
                             (let enhanced = x @ ''.'' @ y @ ''.'' @ z
                              in Some \<lparr>Code = c, Enhanced = enhanced,
                                       Message = fmtInt c @ '' '' @ enhanced @ '' '' @ GetErrorMessage c\<rparr>)
                         | None \<Rightarrow> None)
                      else None)
                 | None \<Rightarrow> None)
      in case ext of
           Some r \<Rightarrow> Some r
         | None \<Rightarrow>
             (case basicRegex email of
                Some (verb, code) \<Rightarrow>
                  (if EqualFold lib verb pfx then
                     (case Atoi code of
                        Some c \<Rightarrow> Some \<lparr>Code = c, Enhanced = [],
                                         Message = fmtInt c @ '' '' @ GetErrorMessage c\<rparr>
                      | None \<Rightarrow> None)
                   else None)
              | None \<Rightarrow> None))"

definition ExtractMailFromError :: "Lib \<Rightarrow> string \<Rightarrow> ErrorResult option" where
  "ExtractMailFromError lib email = parsePrefixedError lib ''mail'' email"

definition ExtractRcptToError :: "Lib \<Rightarrow> string \<Rightarrow> ErrorResult option" where
  "ExtractRcptToError lib email = parsePrefixedError lib ''rcpt'' email"

definition ExtractDataError :: "Lib \<Rightarrow> string \<Rightarrow> ErrorResult option" where
  "ExtractDataError lib email = parsePrefixedError lib ''data'' email"

definition ExtractBdatError :: "Lib \<Rightarrow> string \<Rightarrow> ErrorResult option" where
  "ExtractBdatError lib email = parsePrefixedError lib ''bdat'' email"

definition ExtractRsetError :: "Lib \<Rightarrow> string \<Rightarrow> ErrorResult option" where
  "ExtractRsetError lib email = parsePrefixedError lib ''rset'' email"

definition ExtractQuitError :: "Lib \<Rightarrow> string \<Rightarrow> ErrorResult option" where
  "ExtractQuitError lib email = parsePrefixedError lib ''quit'' email"

definition ExtractStartTLSError :: "Lib \<Rightarrow> string \<Rightarrow> ErrorResult option" where
  "ExtractStartTLSError lib email = parsePrefixedError lib ''starttls'' email"

definition ExtractNoopError :: "Lib \<Rightarrow> string \<Rightarrow> ErrorResult option" where
  "ExtractNoopError lib email = parsePrefixedError lib ''noop'' email"

definition ExtractAuthError :: "Lib \<Rightarrow> string \<Rightarrow> ErrorResult option" where
  "ExtractAuthError lib email = parsePrefixedError lib ''auth'' email"

text \<open>The pattern \<open>^(?:helo|ehlo)(\d{3})\.\<close> on the host name.\<close>

definition heloRegex :: "string \<Rightarrow> string option" where
  "heloRegex hostname =
     (let code = take 3 (drop 4 hostname)
      in if (HasPrefix hostname ''helo'' \<or> HasPrefix hostname ''ehlo'')
            \<and> length code = 3 \<and> list_all isDigit code \<and> HasPrefix (drop 7 hostname) ''.''
         then Some code else None)"

definition ExtractHeloError :: "Lib \<Rightarrow> string \<Rightarrow> ErrorResult option" where
  "ExtractHeloError lib hostname0 =
     (case heloRegex (ToLower lib hostname0) of
        Some code \<Rightarrow>
          (case Atoi code of
             Some c \<Rightarrow> Some \<lparr>Code = c, Enhanced = [], Message = fmtInt c @ '' '' @ GetErrorMessage c\<rparr>
           | None \<Rightarrow> None)
      | None \<Rightarrow> None)"

section \<open>Package smtp: states and commands\<close>

datatype State =
  StateGreeting | StateHelo | StateAuth | StateMail | StateRcpt | StateData | StateBdat | StateQuit

fun StateString :: "State \<Rightarrow> string" where
  "StateString StateGreeting = ''GREETING''"
| "StateString StateHelo = ''HELO''"
| "StateString StateAuth = ''AUTH''"
| "StateString StateMail = ''MAIL''"
| "StateString StateRcpt = ''RCPT''"
| "StateString StateData = ''DATA''"
| "StateString StateBdat = ''BDAT''"
| "StateString StateQuit = ''QUIT''"

record Command =
  Name :: string
  Args :: "string list"

definition ParseCommand :: "Lib \<Rightarrow> string \<Rightarrow> Command option" where
  "ParseCommand lib line =
     (case Fields lib line of
        [] \<Rightarrow> None
      | p # ps \<Rightarrow> Some \<lparr>Name = ToUpper lib p, Args = ps\<rparr>)"

definition IsValid :: "Command \<Rightarrow> bool" where
  "IsValid c =
     (Name c \<in> set [''HELO'', ''EHLO'', ''AUTH'', ''MAIL'', ''RCPT'', ''DATA'', ''BDAT'',
                     ''RSET'', ''NOOP'', ''QUIT'', ''STARTTLS'', ''VRFY''])"

text \<open>\<open>ValidateArgs\<close> returns the text of its error, \<open>None\<close> for \<open>nil\<close>.\<close>

definition ValidateArgs :: "Lib \<Rightarrow> Command \<Rightarrow> string option" where
  "ValidateArgs lib c =
     (let bad = Some ''501 Syntax error in parameters''
      in if Name c = ''HELO'' \<or> Name c = ''EHLO'' \<or> Name c = ''AUTH'' \<or> Name c = ''VRFY'' then
           (if length (Args c) < 1 then bad else None)
         else if Name c = ''MAIL'' then
           (if length (Args c) < 1 \<or> \<not> HasPrefix (ToUpper lib (hd (Args c))) ''FROM:'' then bad else None)
         else if Name c = ''RCPT'' then
           (if length (Args c) < 1 \<or> \<not> HasPrefix (ToUpper lib (hd (Args c))) ''TO:'' then bad else None)
         else if Name c = ''BDAT'' then
           (if length (Args c) < 1 then bad
            else if length (Args c) > 1 \<and> \<not> EqualFold lib (Args c ! 1) ''LAST'' then bad
            else None)
         else None)"

definition allowedStates :: "(string \<times> State list) list" where
  "allowedStates =
     [(''HELO'', [StateHelo, StateMail]),
      (''EHLO'', [StateHelo, StateMail]),
      (''AUTH'', [StateMail, StateAuth]),
      (''MAIL'', [StateMail]),
      (''RCPT'', [StateRcpt]),
      (''DATA'', [StateRcpt]),
      (''BDAT'', [StateRcpt, StateBdat]),
      (''RSET'', [StateHelo, StateMail, StateRcpt, StateAuth]),
      (''NOOP'', [StateHelo, StateMail, StateRcpt, StateData, StateBdat, StateAuth]),
      (''QUIT'', [StateHelo, StateMail, StateRcpt, StateData, StateBdat, StateAuth]),
      (''STARTTLS'', [StateHelo, StateMail]),
      (''VRFY'', [StateGreeting, StateHelo, StateAuth, StateMail, StateRcpt, StateData,
                  StateBdat, StateQuit])]"

definition IsAllowedInState :: "Command \<Rightarrow> State \<Rightarrow> bool" where
  "IsAllowedInState c st =
     (case map_of allowedStates (Name c) of
        Some m \<Rightarrow> st \<in> set m
      | None \<Rightarrow> False)"

section \<open>Package smtp: mail addresses\<close>

definition MaxDomainLength :: nat where
  "MaxDomainLength = 255"

definition MaxLocalPartLength :: nat where
  "MaxLocalPartLength = 64"

definition localPunct :: string where
  "localPunct = ''.!#$%&*+/=?^_{|}~-'' @ [CHR 0x27, CHR 0x60]"

text \<open>\<open>asciiLocalRe\<close>: one or more letters, digits or the punctuation above, and nothing else.\<close>

definition asciiLocalRe :: "string \<Rightarrow> bool" where
  "asciiLocalRe s =
     (s \<noteq> [] \<and> list_all (\<lambda>c. isLowerAZ c \<or> isLowerAZ (toLowerC c) \<or> isDigit c \<or> c \<in> set localPunct) s)"

definition ParseAddress :: "Lib \<Rightarrow> string \<Rightarrow> string" where
  "ParseAddress lib raw0 =
     (let raw = TrimSpace lib raw0
      in if raw = [] then []
         else (case mailParseAddress lib raw of
                 Some a \<Rightarrow> a
               | None \<Rightarrow>
                   (case filter (\<lambda>t. Contains t ''@'')
                           (map (\<lambda>tok. TrimSet tok (''<>,'' @ [CHR 0x27, CHR 0x22])) (Fields lib raw)) of
                      [] \<Rightarrow> []
                    | trim # _ \<Rightarrow> (case mailParseAddress lib trim of Some a2 \<Rightarrow> a2 | None \<Rightarrow> trim))))"

definition ExtractMailboxFromArg :: "Lib \<Rightarrow> string \<Rightarrow> string" where
  "ExtractMailboxFromArg lib arg0 =
     (let upper = ToUpper lib arg0;
          arg1 = (if HasPrefix upper ''FROM:'' then drop 5 arg0
                  else if HasPrefix upper ''TO:'' then drop 3 arg0 else arg0);
          arg = TrimSpace lib arg1;
          addr = ParseAddress lib arg
      in if addr \<noteq> [] then addr else TrimSet arg ''<>'')"

definition NormaliseMailbox :: "Lib \<Rightarrow> string \<Rightarrow> string" where
  "NormaliseMailbox lib mailbox0 =
     (let mailbox = TrimSpace lib mailbox0
      in case LastIndexByte mailbox (CHR ''@'') of
           None \<Rightarrow> []
         | Some at \<Rightarrow> take at mailbox @ ''@'' @ ToLower lib (drop (at + 1) mailbox))"

definition maxASCII :: nat where
  "maxASCII = 127"

definition isAllowedLocalRune :: "Lib \<Rightarrow> nat \<Rightarrow> bool \<Rightarrow> bool" where
  "isAllowedLocalRune lib r allowUTF8Local =
     (if r \<in> set (map of_char localPunct) then True
      else if unicodeIsLetter lib r \<or> unicodeIsNumber lib r then
        (if \<not> allowUTF8Local \<and> r > maxASCII then False else True)
      else False)"

definition checkParsedAddress :: "string \<Rightarrow> bool \<Rightarrow> bool" where
  "checkParsedAddress addr allowUTF8Local =
     (case LastIndexByte addr (CHR ''@'') of
        None \<Rightarrow> False
      | Some at \<Rightarrow>
          (if \<not> allowUTF8Local then list_all (\<lambda>c. (of_char c :: nat) \<le> maxASCII) (take at addr)
           else True))"

definition validateFallbackLocal :: "Lib \<Rightarrow> string \<Rightarrow> bool \<Rightarrow> bool" where
  "validateFallbackLocal lib local allowUTF8Local =
     (if HasPrefix local [CHR 0x22] \<and> HasSuffix local [CHR 0x22] then length local \<ge> 2
      else if allowUTF8Local then list_all (\<lambda>r. isAllowedLocalRune lib r True) (utf8Runes lib local)
      else asciiLocalRe local)"

definition ValidateDomain :: "Lib \<Rightarrow> string \<Rightarrow> bool" where
  "ValidateDomain lib domain =
     (if domain = [] then False
      else if length domain > MaxDomainLength then False
      else domainRegexMatch lib domain)"

definition IsValidMailbox :: "Lib \<Rightarrow> string \<Rightarrow> bool \<Rightarrow> bool" where
  "IsValidMailbox lib mailbox0 allowUTF8Local =
     (let mailbox = TrimSpace lib mailbox0
      in case mailParseAddress lib mailbox of
           Some a \<Rightarrow> checkParsedAddress a allowUTF8Local
         | None \<Rightarrow>
             (case mailParseAddress lib (''<'' @ mailbox @ ''>'') of
                Some a2 \<Rightarrow> checkParsedAddress a2 allowUTF8Local
              | None \<Rightarrow>
                  (case LastIndexByte mailbox (CHR ''@'') of
                     None \<Rightarrow> False
                   | Some at \<Rightarrow>
                       (let local = take at mailbox; domain = drop (at + 1) mailbox
                        in if local = [] \<or> domain = [] then False
                           else if length local > MaxLocalPartLength \<or> length domain > MaxDomainLength
                             then False
                           else if \<not> ValidateDomain lib domain then False
                           else validateFallbackLocal lib local allowUTF8Local))))"

text \<open>\<open>angleAddrRe\<close>, the pattern \<open><([^>]+)>\<close>: the leftmost match and its group.\<close>

fun angleAddrRe :: "string \<Rightarrow> string option" where
  "angleAddrRe [] = None"
| "angleAddrRe (c # cs) =
     (if c = CHR ''<'' \<and> takeWhile (\<lambda>x. x \<noteq> CHR ''>'') cs \<noteq> []
         \<and> dropWhile (\<lambda>x. x \<noteq> CHR ''>'') cs \<noteq> []
      then Some (takeWhile (\<lambda>x. x \<noteq> CHR ''>'') cs)
      else angleAddrRe cs)"

text \<open>\<open>isDelimiter\<close> is applied to single bytes converted to runes: the bytes 0x85 and 0xA0
  are white space there.\<close>

definition isDelimiter :: "char \<Rightarrow> bool" where
  "isDelimiter c = (isSpaceC c \<or> c \<in> set [CHR 0x85, CHR 0xA0] \<or> c \<in> set ''<>(),;:'')"

definition ExtractMailbox :: "Lib \<Rightarrow> string \<Rightarrow> string" where
  "ExtractMailbox lib raw0 =
     (let addr = ParseAddress lib raw0
      in if addr \<noteq> [] then addr
         else (let raw = TrimSpace lib raw0
               in case angleAddrRe raw of
                    Some m \<Rightarrow> TrimSpace lib m
                  | None \<Rightarrow>
                      (case LastIndexByte raw (CHR ''@'') of
                         None \<Rightarrow> []
                       | Some at \<Rightarrow>
                           TrimSet (rev (takeWhile (\<lambda>c. \<not> isDelimiter c) (rev (take at raw)))
                                    @ ''@'' @ takeWhile (\<lambda>c. \<not> isDelimiter c) (drop (at + 1) raw))
                                   ([CHR 0x22, CHR 0x27] @ ''<> ,''))))"

text \<open>\<open>strings.SplitN(s, "@", 2)\<close>.\<close>

definition SplitN2 :: "string \<Rightarrow> string list" where
  "SplitN2 s =
     (case Index s ''@'' of
        None \<Rightarrow> [s]
      | Some i \<Rightarrow> [take i s, drop (i + 1) s])"

section \<open>Package server: the session (session.go)\<close>

record Capabilities =
  Size :: bool
  Pipelining :: bool
  EnhancedStatusCodes :: bool
  SMTPUTF8 :: bool
  Chunking :: bool
  STARTTLS :: bool
  EightBitMIME :: bool

text \<open>The part of \<open>Config\<close> that the session reads. No extension and no capability parser is
  registered (\<open>SMTPExtensions\<close> and \<open>CapabilityParser\<close> are \<open>nil\<close>).\<close>

record Config =
  TLSCertFile :: string
  TLSKeyFile :: string
  TLSHostname :: string
  DropImmediate :: bool
  GreetingDelay :: int
  DropDelay :: int

text \<open>\<open>Config.HasTLS\<close> (config.go): certificate files are provided, or a self-signed certificate
  can be generated; the second disjunct is the constant \<open>true\<close>.\<close>

definition HasTLS :: "Config \<Rightarrow> bool" where
  "HasTLS c = ((TLSCertFile c \<noteq> [] \<and> TLSKeyFile c \<noteq> []) \<or> True)"

text \<open>The message handed to \<open>MessageStore.Store\<close> (without client address and time stamp).\<close>

record Message =
  From :: string
  To :: "string list"
  Content :: string
  Headers :: "(string \<times> string) list"
  MsgSize :: nat
  Hostname :: string
  TLSUsed :: bool

text \<open>
  The session. The connection \<open>conn\<close> is modelled by three fields: \<open>wire\<close>, the payloads of
  the successful \<open>Write\<close> calls in order; \<open>connClosed\<close>, set by \<open>Close\<close>; and \<open>writeBudget\<close>,
  the number of \<open>Write\<close> calls that the peer will still take (\<open>None\<close>: any number).
  \<open>tlsState\<close> is \<open>Some ()\<close> once a TLS connection state is recorded. \<open>storeCalls\<close> lists the
  messages passed to the message store.
\<close>

record Session =
  wire :: "string list"
  connClosed :: bool
  writeBudget :: "nat option"
  state :: State
  heloName :: string
  mailFrom :: string
  rcptTo :: "string list"
  authenticated :: bool
  config :: Config
  tlsState :: "unit option"
  hostname :: string
  capabilities :: Capabilities
  responseQueue :: "string list"
  pipeliningMode :: bool
  advertisedSize :: int
  bdatBuffer :: string
  dataErrorResult :: "ErrorResult option"
  rsetErrorResult :: "ErrorResult option"
  quitErrorResult :: "ErrorResult option"
  startTLSErrorResult :: "ErrorResult option"
  noopErrorResult :: "ErrorResult option"
  authErrorResult :: "ErrorResult option"
  storeCalls :: "Message list"

text \<open>
  What the outside world answers while one command is handled: whether the peek for more input
  succeeds, the result of \<open>ReadDotBytes\<close>, the bytes available to a BDAT chunk, the prompts and
  the outcome of the AUTH dialogue, the verdict of the authenticator (\<open>Some active\<close>), whether
  a certificate is obtained and the TLS handshake succeeds, and the error text of the store.
\<close>

record IO =
  peekOK :: bool
  dotBytes :: "string option"
  bdatAvail :: string
  authPrompts :: "string list"
  authUsername :: "string option"
  authUser :: "bool option"
  tlsCertOK :: bool
  tlsHandshakeOK :: bool
  storeErr :: "string option"

text \<open>
  The errors a step returns. \<open>ErrIndexPanic\<close> and \<open>ErrMakeslicePanic\<close> stand for the run-time
  panics of an index out of range and of \<open>make\<close> called with a length out of range; nothing
  recovers them, so like an error they end the command loop.
\<close>

datatype error =
  EOF | ErrWrite | ErrRead | ErrTLS | ErrClose | ErrMessageSize int | ErrIndexPanic | ErrMakeslicePanic

type_synonym result = "error option \<times> Session"

definition MaxMessageSize :: int where
  "MaxMessageSize = 10 * 1024 * 1024"

definition MaxCommandLength :: nat where
  "MaxCommandLength = 4096"

text \<open>The sum of two values of type \<open>int\<close> wraps around at 64 bits.\<close>

definition wrapInt :: "int \<Rightarrow> int" where
  "wrapInt i = (i + 9223372036854775808) mod 18446744073709551616 - 9223372036854775808"

text \<open>The largest length that \<open>make([]byte, n)\<close> accepts on a 64-bit platform (\<open>maxAlloc\<close> of
  the Go runtime, \<open>2^48\<close>); beyond it \<open>make\<close> panics.\<close>

definition maxAlloc :: int where
  "maxAlloc = 281474976710656"

definition advertisedSizeMin :: int where
  "advertisedSizeMin = 1000"

definition advertisedSizeMax :: int where
  "advertisedSizeMax = 10000000"

definition ServerGreeting :: string where
  "ServerGreeting = ''BadSMTP - The Reliably Unreliable Mail Server https://badsmtp.com''"

text \<open>\<open>conn.Write\<close> and \<open>conn.Close\<close>.\<close>

definition connWrite :: "string \<Rightarrow> Session \<Rightarrow> result" where
  "connWrite data s =
     (if connClosed s \<or> writeBudget s = Some 0 then (Some ErrWrite, s)
      else (None, s\<lparr>wire := wire s @ [data], writeBudget := map_option (\<lambda>n. n - 1) (writeBudget s)\<rparr>))"

definition connClose :: "Session \<Rightarrow> Session" where
  "connClose s = s\<lparr>connClosed := True\<rparr>"

text \<open>Sequencing: the rest runs only when the first step returned \<open>nil\<close>.\<close>

definition andThen :: "result \<Rightarrow> (Session \<Rightarrow> result) \<Rightarrow> result" where
  "andThen r k = (case r of (Some e, s) \<Rightarrow> (Some e, s) | (None, s) \<Rightarrow> k s)"

definition parseCapabilityLabel :: "Lib \<Rightarrow> string \<Rightarrow> string list" where
  "parseCapabilityLabel lib host =
     (let label = (case Index host ''.'' of Some idx \<Rightarrow> take idx host | None \<Rightarrow> host)
      in SplitByte (ToLower lib label) (CHR ''-''))"

definition hasCapability :: "Lib \<Rightarrow> string list \<Rightarrow> string \<Rightarrow> bool" where
  "hasCapability lib parts pattern = list_ex (\<lambda>part. Contains part (ToLower lib pattern)) parts"

text \<open>\<open>sizeRegex\<close>, the pattern \<open>size(\d+)\<close>: the digits of the leftmost match.\<close>

fun sizeRegex :: "string \<Rightarrow> string option" where
  "sizeRegex [] = None"
| "sizeRegex (c # cs) =
     (if HasPrefix (c # cs) ''size'' \<and> takeWhile isDigit (drop 4 (c # cs)) \<noteq> []
      then Some (takeWhile isDigit (drop 4 (c # cs)))
      else sizeRegex cs)"

fun parseAndClampSize :: "string list \<Rightarrow> (int \<times> bool)" where
  "parseAndClampSize [] = (0, False)"
| "parseAndClampSize (part # parts) =
     (case sizeRegex part of
        None \<Rightarrow> parseAndClampSize parts
      | Some m \<Rightarrow>
          (case Atoi m of
             None \<Rightarrow> parseAndClampSize parts
           | Some v \<Rightarrow>
               (if v \<le> 0 then parseAndClampSize parts
                else if v < advertisedSizeMin then (advertisedSizeMin, True)
                else if v > advertisedSizeMax then (advertisedSizeMax, True)
                else (v, True))))"

definition getAuthMechanisms :: "Lib \<Rightarrow> string list \<Rightarrow> string" where
  "getAuthMechanisms lib parts =
     (let lastAuth =
            foldl (\<lambda>acc part0.
                     (let part = ToLower lib part0
                      in if Contains part ''authplain'' then ''PLAIN''
                         else if Contains part ''authlogin'' then ''LOGIN''
                         else if Contains part ''authcram'' then ''CRAM-MD5 CRAM-SHA256''
                         else if Contains part ''authoauth'' then ''XOAUTH2''
                         else acc)) [] parts
      in if lastAuth \<noteq> [] then lastAuth else ''PLAIN LOGIN CRAM-MD5 CRAM-SHA256 XOAUTH2'')"

definition getMaxMessageSize :: "Session \<Rightarrow> int" where
  "getMaxMessageSize s = (if advertisedSize s > 0 then advertisedSize s else MaxMessageSize)"

definition formatErrorResult :: "Session \<Rightarrow> ErrorResult \<Rightarrow> string" where
  "formatErrorResult s err =
     (if EnhancedStatusCodes (capabilities s) \<and> Enhanced err \<noteq> []
      then fmtInt (Code err) @ '' '' @ Enhanced err @ '' '' @ GetErrorMessage (Code err)
      else fmtInt (Code err) @ '' '' @ GetErrorMessage (Code err))"

definition isResponse421 :: "Lib \<Rightarrow> string \<Rightarrow> bool" where
  "isResponse421 lib response =
     (if response = [] then False
      else
        (let first0 = (case Index response CRLF of Some idx \<Rightarrow> take idx response | None \<Rightarrow> response);
             first = TrimLeftSet first0 [CHR 0x20, CHR 0x09];
             canon = ToLower lib (TrimSpace lib (GetErrorMessage Code421))
         in case (if length first \<ge> 3 then Atoi (take 3 first) else None) of
              Some code \<Rightarrow> code = Code421
            | None \<Rightarrow>
                (EqualFold lib (TrimSpace lib first) canon
                 \<or> EqualFold lib (TrimSpace lib (TrimPrefix first ''421 '')) canon)))"

fun flushLoop :: "string list \<Rightarrow> Session \<Rightarrow> result" where
  "flushLoop [] s = (None, s)"
| "flushLoop (response # rest) s = andThen (connWrite (response @ CRLF) s) (flushLoop rest)"

definition flushResponses :: "Session \<Rightarrow> result" where
  "flushResponses s =
     (if length (responseQueue s) = 0 then (None, s)
      else andThen (flushLoop (responseQueue s) s) (\<lambda>s1. (None, s1\<lparr>responseQueue := []\<rparr>)))"

definition writeResponse :: "Lib \<Rightarrow> string \<Rightarrow> Session \<Rightarrow> result" where
  "writeResponse lib response s =
     (let is421 = isResponse421 lib response
      in if pipeliningMode s \<and> \<not> is421 then (None, s\<lparr>responseQueue := responseQueue s @ [response]\<rparr>)
         else if pipeliningMode s \<and> is421 then
           andThen (flushResponses s) (\<lambda>s1.
           andThen (connWrite (response @ CRLF) s1) (\<lambda>s2.
             (Some EOF, connClose s2)))
         else
           andThen (connWrite (response @ CRLF) s) (\<lambda>s1.
             if is421 then (Some EOF, connClose s1) else (None, s1)))"

definition breaksPipelining :: "string \<Rightarrow> bool" where
  "breaksPipelining cmdName =
     (if cmdName = ''DATA'' then True
      else if cmdName = ''BDAT'' then True
      else if cmdName = ''AUTH'' then True
      else if cmdName = ''STARTTLS'' then True
      else if cmdName = ''QUIT'' then True
      else False)"

definition flushAndReturn :: "error option \<Rightarrow> Session \<Rightarrow> result" where
  "flushAndReturn cmdErr s =
     (case flushResponses s of
        (Some flushErr, s1) \<Rightarrow> (Some flushErr, s1)
      | (None, s1) \<Rightarrow> (cmdErr, s1))"

text \<open>\<open>parseAndLogCommand\<close> returns the command to dispatch (or none) and the write error.\<close>

definition rejectCommand :: "Lib \<Rightarrow> string \<Rightarrow> Session \<Rightarrow> (Command option \<times> error option \<times> Session)" where
  "rejectCommand lib response s =
     (case writeResponse lib response s of
        (Some werr, s1) \<Rightarrow> (None, Some werr, s1)
      | (None, s1) \<Rightarrow> (None, None, s1))"

definition parseAndLogCommand :: "Lib \<Rightarrow> string \<Rightarrow> Session \<Rightarrow> (Command option \<times> error option \<times> Session)" where
  "parseAndLogCommand lib line s =
     (case ParseCommand lib line of
        None \<Rightarrow> rejectCommand lib ''500 Command not recognised'' s
      | Some cmd \<Rightarrow>
          (if \<not> IsValid cmd then rejectCommand lib ''500 Command not recognised'' s
           else if \<not> IsAllowedInState cmd (state s) then
             rejectCommand lib (''503 Bad sequence - '' @ Name cmd @ '' not allowed in ''
                            @ StateString (state s) @ '' state'') s
           else (case ValidateArgs lib cmd of
                   Some msg \<Rightarrow> rejectCommand lib msg s
                 | None \<Rightarrow> (Some cmd, None, s))))"

definition addStandardCapabilities :: "Lib \<Rightarrow> string list \<Rightarrow> string list \<Rightarrow> Session \<Rightarrow> (string list \<times> Session)" where
  "addStandardCapabilities lib response parts s =
     (let r1 = (if \<not> hasCapability lib parts ''noauth'' then
                  (let authMechanisms = getAuthMechanisms lib parts
                   in if authMechanisms \<noteq> [] then response @ [fmtInt Code250 @ ''-AUTH '' @ authMechanisms]
                      else response)
                else response);
          s1 = s\<lparr>capabilities := (capabilities s)\<lparr>EightBitMIME := \<not> hasCapability lib parts ''no8bit''\<rparr>\<rparr>;
          r2 = (if EightBitMIME (capabilities s1) then r1 @ [fmtInt Code250 @ ''-8BITMIME''] else r1);
          s2 = s1\<lparr>capabilities := (capabilities s1)\<lparr>Size := \<not> hasCapability lib parts ''nosize''\<rparr>\<rparr>;
          s3 = (if Size (capabilities s2) then
                  (case parseAndClampSize parts of
                     (v, True) \<Rightarrow> s2\<lparr>advertisedSize := v\<rparr>
                   | (v, False) \<Rightarrow> s2)
                else s2);
          r3 = (if Size (capabilities s2) then
                  r2 @ [fmtInt Code250 @ ''-SIZE '' @
                        fmtInt (case parseAndClampSize parts of (v, True) \<Rightarrow> v | (v, False) \<Rightarrow> MaxMessageSize)]
                else r2);
          s4 = s3\<lparr>capabilities := (capabilities s3)\<lparr>Pipelining := \<not> hasCapability lib parts ''nopipelining''\<rparr>\<rparr>;
          r4 = (if Pipelining (capabilities s4) then r3 @ [fmtInt Code250 @ ''-PIPELINING''] else r3);
          s5 = s4\<lparr>capabilities := (capabilities s4)\<lparr>STARTTLS :=
                      (\<not> hasCapability lib parts ''nostarttls'' \<and> HasTLS (config s4))\<rparr>\<rparr>;
          r5 = (if STARTTLS (capabilities s5) then r4 @ [fmtInt Code250 @ ''-STARTTLS''] else r4);
          s6 = s5\<lparr>capabilities := (capabilities s5)\<lparr>Chunking := \<not> hasCapability lib parts ''nochunking''\<rparr>\<rparr>;
          r6 = (if Chunking (capabilities s6) then r5 @ [fmtInt Code250 @ ''-CHUNKING''] else r5);
          s7 = s6\<lparr>capabilities := (capabilities s6)\<lparr>SMTPUTF8 := \<not> hasCapability lib parts ''nosmtputf8''\<rparr>\<rparr>;
          r7 = (if SMTPUTF8 (capabilities s7) then r6 @ [fmtInt Code250 @ ''-SMTPUTF8''] else r6);
          s8 = s7\<lparr>capabilities := (capabilities s7)\<lparr>EnhancedStatusCodes :=
                      \<not> hasCapability lib parts ''noenhancedstatuscodes''\<rparr>\<rparr>;
          r8 = (if EnhancedStatusCodes (capabilities s8) then r7 @ [fmtInt Code250 @ ''-ENHANCEDSTATUSCODES'']
                else r7)
      in (r8, s8))"

definition buildEhloResponse :: "Lib \<Rightarrow> string \<Rightarrow> Session \<Rightarrow> (string list \<times> Session)" where
  "buildEhloResponse lib host s =
     (let parts = parseCapabilityLabel lib host;
          (response, s1) = addStandardCapabilities lib [fmtInt Code250 @ ''-badsmtp.test''] parts s
      in (response @ [fmtInt Code250 @ '' OK''], s1))"

definition handleEhlo :: "Lib \<Rightarrow> string \<Rightarrow> Session \<Rightarrow> result" where
  "handleEhlo lib host0 s =
     (let host = ToLower lib host0;
          parts = parseCapabilityLabel lib host
      in if hasCapability lib parts ''reject'' \<or> hasCapability lib parts ''noehl''
         then writeResponse lib ''502 Command not implemented'' s
         else (let (response, s1) = buildEhloResponse lib host s
               in writeResponse lib (Join response CRLF) s1))"

definition handleHelo :: "Lib \<Rightarrow> Command \<Rightarrow> Session \<Rightarrow> result" where
  "handleHelo lib cmd s =
     (if state s \<noteq> StateHelo then writeResponse lib ''503 Bad sequence of commands'' s
      else (case Args cmd of
              [] \<Rightarrow> (Some ErrIndexPanic, s)
            | host # _ \<Rightarrow>
                (let s1 = s\<lparr>heloName := host\<rparr>
                 in case ExtractHeloError lib host of
                      Some errorResult \<Rightarrow> writeResponse lib (formatErrorResult s1 errorResult) s1
                    | None \<Rightarrow>
                        (let s2 = s1\<lparr>state := StateMail\<rparr>
                         in if Name cmd = ''EHLO'' then handleEhlo lib host s2
                            else writeResponse lib ''250 badsmtp.test'' s2))))"

text \<open>
  \<open>auth.NewHandler\<close> knows five mechanisms. A handler's \<open>Authenticate\<close> writes its prompts,
  each a line \<open>334 ...\<close>, straight to the connection and reads the client's answers; it
  returns the user name or an error.
\<close>

definition NewHandler :: "Lib \<Rightarrow> string \<Rightarrow> bool" where
  "NewHandler lib mechanism =
     (ToUpper lib mechanism \<in> set [''PLAIN'', ''LOGIN'', ''CRAM-MD5'', ''CRAM-SHA256'', ''XOAUTH2''])"

fun authWrites :: "string list \<Rightarrow> Session \<Rightarrow> result" where
  "authWrites [] s = (None, s)"
| "authWrites (p # ps) s = andThen (connWrite (''334 '' @ p @ CRLF) s) (authWrites ps)"

definition handlerAuthenticate :: "IO \<Rightarrow> Session \<Rightarrow> (string option \<times> Session)" where
  "handlerAuthenticate io s =
     (case authWrites (authPrompts io) s of
        (Some e, s1) \<Rightarrow> (None, s1)
      | (None, s1) \<Rightarrow> (authUsername io, s1))"

definition handleAuth :: "Lib \<Rightarrow> IO \<Rightarrow> Command \<Rightarrow> Session \<Rightarrow> result" where
  "handleAuth lib io cmd s =
     (if state s \<noteq> StateMail \<and> state s \<noteq> StateAuth then writeResponse lib ''503 Bad sequence of commands'' s
      else (case authErrorResult s of
              Some e \<Rightarrow> writeResponse lib (formatErrorResult s e) s
            | None \<Rightarrow>
                (case Args cmd of
                   [] \<Rightarrow> (Some ErrIndexPanic, s)
                 | mech # _ \<Rightarrow>
                     (if \<not> NewHandler lib mech then writeResponse lib ''504 Authentication mechanism not supported'' s
                      else (case handlerAuthenticate io s of
                              (None, s1) \<Rightarrow> writeResponse lib ''535 Authentication failed'' s1
                            | (Some username, s1) \<Rightarrow>
                                (case authUser io of
                                   None \<Rightarrow> writeResponse lib ''535 Authentication failed'' s1
                                 | Some active \<Rightarrow>
                                     (if \<not> active
                                      then writeResponse lib ''535 Authentication failed: account inactive'' s1
                                      else writeResponse lib ''235 Authentication successful''
                                             (s1\<lparr>authenticated := True, state := StateMail\<rparr>))))))))"

definition handleMail :: "Lib \<Rightarrow> Command \<Rightarrow> Session \<Rightarrow> result" where
  "handleMail lib cmd s =
     (if state s \<noteq> StateMail then writeResponse lib ''503 Bad sequence of commands'' s
      else (case Args cmd of
              [] \<Rightarrow> (Some ErrIndexPanic, s)
            | arg # _ \<Rightarrow>
                (let raw = ExtractMailboxFromArg lib arg
                 in if raw = [] then writeResponse lib ''501 Syntax error in parameters'' s
                    else if \<not> IsValidMailbox lib raw (SMTPUTF8 (capabilities s))
                      then writeResponse lib ''501 Syntax error in parameters'' s
                    else (let fromAddr = NormaliseMailbox lib raw
                          in case ExtractMailFromError lib fromAddr of
                               Some errorResult \<Rightarrow> writeResponse lib (formatErrorResult s errorResult) s
                             | None \<Rightarrow>
                                 writeResponse lib ''250 OK''
                                   (s\<lparr>dataErrorResult := ExtractDataError lib fromAddr,
                                      rsetErrorResult := ExtractRsetError lib fromAddr,
                                      quitErrorResult := ExtractQuitError lib fromAddr,
                                      startTLSErrorResult := ExtractStartTLSError lib fromAddr,
                                      noopErrorResult := ExtractNoopError lib fromAddr,
                                      authErrorResult := ExtractAuthError lib fromAddr,
                                      mailFrom := fromAddr,
                                      state := StateRcpt\<rparr>)))))"

definition handleRcpt :: "Lib \<Rightarrow> Command \<Rightarrow> Session \<Rightarrow> result" where
  "handleRcpt lib cmd s =
     (if state s \<noteq> StateRcpt then writeResponse lib ''503 Bad sequence of commands'' s
      else (case Args cmd of
              [] \<Rightarrow> (Some ErrIndexPanic, s)
            | arg # _ \<Rightarrow>
                (let raw = ExtractMailboxFromArg lib arg
                 in if raw = [] then writeResponse lib ''501 Syntax error in parameters'' s
                    else if \<not> IsValidMailbox lib raw (SMTPUTF8 (capabilities s))
                      then writeResponse lib ''501 Syntax error in parameters'' s
                    else (let toAddr = NormaliseMailbox lib raw
                          in case ExtractRcptToError lib toAddr of
                               Some errorResult \<Rightarrow> writeResponse lib (formatErrorResult s errorResult) s
                             | None \<Rightarrow> writeResponse lib ''250 OK'' (s\<lparr>rcptTo := rcptTo s @ [toAddr]\<rparr>)))))"

definition vrfyReply :: "Lib \<Rightarrow> string \<Rightarrow> string \<Rightarrow> string" where
  "vrfyReply lib addr ambiguousText =
     (let local = ToLower lib (hd (SplitN2 addr))
      in if HasPrefix local ''exists'' then ''250 '' @ addr @ '' User exists''
         else if HasPrefix local ''unknown'' then ''551 User not local; please try forward path''
         else if HasPrefix local ''ambiguous'' then ambiguousText
         else ''550 Requested action not taken: mailbox unavailable'')"

definition handleVrfy :: "Lib \<Rightarrow> Command \<Rightarrow> Session \<Rightarrow> result" where
  "handleVrfy lib cmd s =
     (let target = Join (Args cmd) '' '';
          raw = ExtractMailbox lib target
      in if raw = [] \<or> \<not> Contains raw ''@'' then writeResponse lib ''501 Syntax error in parameters'' s
         else if \<not> IsValidMailbox lib raw (SMTPUTF8 (capabilities s)) then
           (if SMTPUTF8 (capabilities s) \<and> ValidateDomain lib (SplitN2 raw ! 1)
            then writeResponse lib (vrfyReply lib (NormaliseMailbox lib raw) ''553 User ambiguous'') s
            else writeResponse lib ''501 Syntax error in parameters'' s)
         else writeResponse lib (vrfyReply lib (NormaliseMailbox lib raw)
                               ''553 Requested action not taken: mailbox name not allowed'') s)"

definition readMessageContent :: "IO \<Rightarrow> Session \<Rightarrow> error + string" where
  "readMessageContent io s =
     (case dotBytes io of
        None \<Rightarrow> Inl ErrRead
      | Some data \<Rightarrow>
          (if int (length data) > getMaxMessageSize s then Inl (ErrMessageSize (getMaxMessageSize s))
           else Inr data))"

text \<open>\<open>storeMessage\<close> returns the error text of the store, \<open>None\<close> for \<open>nil\<close>.\<close>

definition storeMessage :: "Lib \<Rightarrow> IO \<Rightarrow> string \<Rightarrow> Session \<Rightarrow> (string option \<times> Session)" where
  "storeMessage lib io content s =
     (let (headers, bodyBytes) = (case mailReadMessage lib content of
                                    Some (h, b) \<Rightarrow> (h, b)
                                  | None \<Rightarrow> ([], []));
          msg = \<lparr>From = mailFrom s, To = rcptTo s, Content = content, Headers = headers,
                 MsgSize = (if length bodyBytes > 0 then length bodyBytes else length content),
                 Hostname = hostname s, TLSUsed = (tlsState s \<noteq> None)\<rparr>
      in (storeErr io, s\<lparr>storeCalls := storeCalls s @ [msg]\<rparr>))"

definition handleStorageError :: "Lib \<Rightarrow> string \<Rightarrow> Session \<Rightarrow> result" where
  "handleStorageError lib err s =
     (if Contains err ''not active'' then writeResponse lib ''550 Requested action not taken: mailbox unavailable'' s
      else if Contains err ''quota''
        then writeResponse lib ''452 Requested action not taken: insufficient system storage'' s
      else writeResponse lib ''450 Requested action not taken: mailbox temporarily unavailable'' s)"

definition resetSessionState :: "Session \<Rightarrow> Session" where
  "resetSessionState s =
     s\<lparr>state := StateMail, rcptTo := [], mailFrom := [],
       dataErrorResult := None, rsetErrorResult := None, quitErrorResult := None,
       startTLSErrorResult := None, noopErrorResult := None, authErrorResult := None\<rparr>"

definition handleData :: "Lib \<Rightarrow> IO \<Rightarrow> Session \<Rightarrow> result" where
  "handleData lib io s =
     (if state s \<noteq> StateRcpt then writeResponse lib ''503 Bad sequence of commands'' s
      else (case dataErrorResult s of
              Some e \<Rightarrow> writeResponse lib (formatErrorResult s e) s
            | None \<Rightarrow>
                andThen (writeResponse lib ''354 End data with <CR><LF>.<CR><LF>'' (s\<lparr>state := StateData\<rparr>))
                  (\<lambda>s1. case readMessageContent io s1 of
                           Inl err \<Rightarrow> (Some err, s1)
                         | Inr messageContent \<Rightarrow>
                             (case storeMessage lib io messageContent s1 of
                                (Some err, s2) \<Rightarrow> handleStorageError lib err s2
                              | (None, s2) \<Rightarrow>
                                  writeResponse lib ''250 OK Message accepted for delivery''
                                    (resetSessionState s2)))))"

definition handleRset :: "Lib \<Rightarrow> Session \<Rightarrow> result" where
  "handleRset lib s =
     (case rsetErrorResult s of
        Some e \<Rightarrow> writeResponse lib (formatErrorResult s e) s
      | None \<Rightarrow> writeResponse lib ''250 OK'' (s\<lparr>state := StateMail, mailFrom := [], rcptTo := []\<rparr>))"

definition handleNoop :: "Lib \<Rightarrow> Session \<Rightarrow> result" where
  "handleNoop lib s =
     (case noopErrorResult s of
        Some e \<Rightarrow> writeResponse lib (formatErrorResult s e) s
      | None \<Rightarrow> writeResponse lib ''250 OK'' s)"

definition setupSessionBehaviourAndGreet :: "Lib \<Rightarrow> Session \<Rightarrow> result" where
  "setupSessionBehaviourAndGreet lib s =
     (if DropImmediate (config s) then (None, s)
      else if DropDelay (config s) > 0 then (None, s)
      else (let identity = (if hostname s \<noteq> [] then hostname s
                            else if TLSHostname (config s) \<noteq> [] then TLSHostname (config s)
                            else ''badsmtp.test'')
            in andThen (writeResponse lib (''220 '' @ identity @ '' ESMTP '' @ ServerGreeting) s)
                 (\<lambda>s1. (None, s1\<lparr>state := StateHelo\<rparr>))))"

definition handleStartTLS :: "Lib \<Rightarrow> IO \<Rightarrow> Session \<Rightarrow> result" where
  "handleStartTLS lib io s =
     (case startTLSErrorResult s of
        Some e \<Rightarrow> writeResponse lib (formatErrorResult s e) s
      | None \<Rightarrow>
          (if tlsState s \<noteq> None then writeResponse lib ''554 TLS already started'' s
           else andThen (writeResponse lib ''220 Ready to start TLS'' s)
                  (\<lambda>s1. if \<not> tlsCertOK io then (Some ErrTLS, s1)
                         else if \<not> tlsHandshakeOK io then (Some ErrTLS, s1)
                         else (None, s1\<lparr>tlsState := Some (), state := StateHelo\<rparr>))))"

definition handleQuit :: "Lib \<Rightarrow> Session \<Rightarrow> result" where
  "handleQuit lib s =
     (case quitErrorResult s of
        Some e \<Rightarrow>
          andThen (writeResponse lib (formatErrorResult s e) s) (\<lambda>s1. (Some EOF, s1\<lparr>state := StateQuit\<rparr>))
      | None \<Rightarrow>
          andThen (writeResponse lib ''221 Bye'' s) (\<lambda>s1. (Some EOF, s1\<lparr>state := StateQuit\<rparr>)))"

text \<open>\<open>readBDATChunk\<close> allocates a buffer of \<open>n\<close> bytes (\<open>n\<close> is not negative here) and reads
  exactly \<open>n\<close> bytes into it, or fails.\<close>

definition readBDATChunk :: "int \<Rightarrow> IO \<Rightarrow> error + string" where
  "readBDATChunk n io =
     (if n > maxAlloc then Inl ErrMakeslicePanic
      else if length (bdatAvail io) < nat n then Inl ErrRead
      else Inr (take (nat n) (bdatAvail io)))"

definition handleBdat :: "Lib \<Rightarrow> IO \<Rightarrow> Command \<Rightarrow> Session \<Rightarrow> result" where
  "handleBdat lib io cmd s =
     (if \<not> (state s = StateRcpt \<or> state s = StateBdat) then writeResponse lib ''503 Bad sequence of commands'' s
      else (case Args cmd of
              [] \<Rightarrow> (Some ErrIndexPanic, s)
            | a # rest \<Rightarrow>
                (case Atoi a of
                   None \<Rightarrow> writeResponse lib ''501 Syntax error in parameters'' s
                 | Some n \<Rightarrow>
                     (if n < 0 then writeResponse lib ''501 Syntax error in parameters'' s
                      else (let last = (case rest of [] \<Rightarrow> False | b # _ \<Rightarrow> EqualFold lib b ''LAST'')
                            in if dataErrorResult s \<noteq> None \<and> last
                               then writeResponse lib (formatErrorResult s (the (dataErrorResult s))) s
                               else if wrapInt (int (length (bdatBuffer s)) + n) > getMaxMessageSize s
                               then writeResponse lib (''552 Message size exceeds fixed maximum of ''
                                                   @ fmtInt (getMaxMessageSize s) @ '' bytes'') s
                               else (case readBDATChunk n io of
                                       Inl err \<Rightarrow> (Some err, s)
                                     | Inr chunk \<Rightarrow>
                                         (let s1 = s\<lparr>bdatBuffer := bdatBuffer s @ chunk\<rparr>
                                          in if last then
                                               (case storeMessage lib io (bdatBuffer s1) s1 of
                                                  (Some err, s2) \<Rightarrow> handleStorageError lib err s2
                                                | (None, s2) \<Rightarrow>
                                                    writeResponse lib ''250 OK Message accepted for delivery''
                                                      (resetSessionState (s2\<lparr>bdatBuffer := []\<rparr>)))
                                             else writeResponse lib ''250 OK'' (s1\<lparr>state := StateBdat\<rparr>))))))))"

text \<open>The dispatch table of \<open>commandHandlers\<close>; no extension claims any other command.\<close>

definition dispatch :: "Lib \<Rightarrow> IO \<Rightarrow> Command \<Rightarrow> Session \<Rightarrow> result" where
  "dispatch lib io cmd s =
     (if Name cmd = ''HELO'' \<or> Name cmd = ''EHLO'' then handleHelo lib cmd s
      else if Name cmd = ''AUTH'' then handleAuth lib io cmd s
      else if Name cmd = ''MAIL'' then handleMail lib cmd s
      else if Name cmd = ''RCPT'' then handleRcpt lib cmd s
      else if Name cmd = ''DATA'' then handleData lib io s
      else if Name cmd = ''BDAT'' then handleBdat lib io cmd s
      else if Name cmd = ''RSET'' then handleRset lib s
      else if Name cmd = ''NOOP'' then handleNoop lib s
      else if Name cmd = ''STARTTLS'' then handleStartTLS lib io s
      else if Name cmd = ''QUIT'' then handleQuit lib s
      else if Name cmd = ''VRFY'' then handleVrfy lib cmd s
      else writeResponse lib ''500 Command not recognised'' s)"

definition handleCommand :: "Lib \<Rightarrow> IO \<Rightarrow> string \<Rightarrow> Session \<Rightarrow> result" where
  "handleCommand lib io line s =
     (case parseAndLogCommand lib line s of
        (_, Some err, s1) \<Rightarrow> (Some err, s1)
      | (None, None, s1) \<Rightarrow> (None, s1)
      | (Some cmd, None, s1) \<Rightarrow>
          andThen (if breaksPipelining (Name cmd)
                   then andThen (flushResponses s1) (\<lambda>s2. (None, s2\<lparr>pipeliningMode := False\<rparr>))
                   else (None, s1))
            (\<lambda>s2. case dispatch lib io cmd s2 of
                     (cmdErr, s3) \<Rightarrow>
                       (if cmdErr \<noteq> None \<or> breaksPipelining (Name cmd) then flushAndReturn cmdErr s3
                        else (cmdErr, s3))))"

text \<open>
  The command loop. Each element of the input is one line returned by \<open>ReadLine\<close> together
  with the answers of the outside world while that line is handled; the end of the list is
  the end of the client's input. An \<open>EOF\<close> from a handler ends the loop without error.
\<close>

definition detectPipelining :: "IO \<Rightarrow> bool" where
  "detectPipelining io = peekOK io"

text \<open>The step of the loop that switches pipelining mode on before a command is handled.\<close>

definition enterPipelining :: "IO \<Rightarrow> Session \<Rightarrow> Session" where
  "enterPipelining io s =
     (if Pipelining (capabilities s) \<and> \<not> pipeliningMode s \<and> detectPipelining io
      then s\<lparr>pipeliningMode := True\<rparr> else s)"

fun runCommandLoop :: "Lib \<Rightarrow> (string \<times> IO) list \<Rightarrow> Session \<Rightarrow> result" where
  "runCommandLoop lib [] s = (None, s)"
| "runCommandLoop lib ((raw, io) # rest) s =
     (let line = TrimSpace lib raw
      in if line = [] then runCommandLoop lib rest s
         else if length line > MaxCommandLength then
           andThen (writeResponse lib ''500 Command too long'' s) (runCommandLoop lib rest)
         else (case handleCommand lib io line (enterPipelining io s) of
                 (Some err, s2) \<Rightarrow> (if err = EOF then (None, s2) else (Some err, s2))
               | (None, s2) \<Rightarrow> runCommandLoop lib rest s2))"

text \<open>\<open>Handle\<close>: greet, run the loop, and close the connection on the way out.\<close>

definition Handle :: "Lib \<Rightarrow> (string \<times> IO) list \<Rightarrow> Session \<Rightarrow> result" where
  "Handle lib input s =
     (case andThen (setupSessionBehaviourAndGreet lib s) (runCommandLoop lib input) of
        (r, s1) \<Rightarrow> (r, connClose s1))"

text \<open>
  \<open>CloseWith421\<close>, which the server calls on every active session at shutdown: the queue is
  flushed (a failure there is only logged), the 421 line is written and the connection is
  closed. \<open>closeErr\<close> tells whether \<open>Close\<close> reports an error.
\<close>

definition CloseWith421 :: "bool \<Rightarrow> string \<Rightarrow> Session \<Rightarrow> result" where
  "CloseWith421 closeErr reason s =
     (let msg = (if reason \<noteq> [] then reason else GetErrorMessage Code421);
          resp = fmtInt Code421 @ '' '' @ msg;
          s1 = snd (flushResponses s)
      in case connWrite (resp @ CRLF) s1 of
           (Some err, s2) \<Rightarrow> (Some err, connClose s2)
         | (None, s2) \<Rightarrow> (if closeErr then (Some ErrClose, connClose s2) else (None, connClose s2)))"

text \<open>\<open>NewSessionWithHostname\<close>: the session as it is created for a connection.\<close>

definition NewSession :: "Config \<Rightarrow> string \<Rightarrow> bool \<Rightarrow> Session" where
  "NewSession cfg host implicitTLS =
     \<lparr>wire = [], connClosed = False, writeBudget = None, state = StateGreeting, heloName = [],
      mailFrom = [], rcptTo = [], authenticated = False, config = cfg,
      tlsState = (if implicitTLS then Some () else None), hostname = host,
      capabilities = \<lparr>Size = False, Pipelining = False, EnhancedStatusCodes = False, SMTPUTF8 = False,
                       Chunking = False, STARTTLS = False, EightBitMIME = False\<rparr>,
      responseQueue = [], pipeliningMode = False, advertisedSize = 0, bdatBuffer = [],
      dataErrorResult = None, rsetErrorResult = None, quitErrorResult = None,
      startTLSErrorResult = None, noopErrorResult = None, authErrorResult = None,
      storeCalls = []\<rparr>"

section \<open>A concrete environment\<close>

text \<open>
  For evaluating the session on concrete input, all of it ASCII: an address parser that
  accepts a plain \<open>local@domain\<close> (optionally in angle brackets) the way \<open>net/mail\<close> does, a
  message parser that finds no headers, and a peer that answers every request successfully.
  On ASCII input the \<open>unicode...\<close> functions are never called.
\<close>

definition simpleParseAddress :: "string \<Rightarrow> string option" where
  "simpleParseAddress a0 =
     (let a = (if HasPrefix a0 ''<'' \<and> HasSuffix a0 ''>'' then butlast (tl a0) else a0)
      in case LastIndexByte a (CHR ''@'') of
           None \<Rightarrow> None
         | Some at \<Rightarrow>
             (if asciiLocalRe (take at a) \<and> asciiLocalRe (drop (at + 1) a) then Some a else None))"

definition exampleLib :: Lib where
  "exampleLib =
     \<lparr>mailParseAddress = simpleParseAddress, mailReadMessage = (\<lambda>c. None),
      domainRegexMatch = (\<lambda>d. asciiLocalRe d), utf8Runes = map of_char,
      unicodeIsLetter = (\<lambda>r. False), unicodeIsNumber = (\<lambda>r. False),
      unicodeToLower = (\<lambda>s. s), unicodeToUpper = (\<lambda>s. s), unicodeEqualFold = (\<lambda>a b. a = b),
      unicodeTrimSpace = (\<lambda>s. s), unicodeFields = (\<lambda>s. [s])\<rparr>"

definition exampleIO :: IO where
  "exampleIO =
     \<lparr>peekOK = False, dotBytes = Some ''Subject: t'', bdatAvail = ''hello'', authPrompts = [],
      authUsername = Some ''user'', authUser = Some True, tlsCertOK = True, tlsHandshakeOK = True,
      storeErr = None\<rparr>"

definition exampleConfig :: Config where
  "exampleConfig =
     \<lparr>TLSCertFile = [], TLSKeyFile = [], TLSHostname = [], DropImmediate = False, GreetingDelay = 0,
      DropDelay = 0\<rparr>"

section \<open>Views of the session used in the statements\<close>

text \<open>\<open>offConn\<close> forgets the connection and the response queue: two sessions with the same
  \<open>offConn\<close> agree on the protocol state, the envelope, the pending errors and all the rest.\<close>

definition offConn :: "Session \<Rightarrow> Session" where
  "offConn s = s\<lparr>wire := [], connClosed := False, writeBudget := None, responseQueue := []\<rparr>"

text \<open>The six pending-error slots, in the order data, rset, quit, starttls, noop, auth.\<close>

definition pendingErrors :: "Session \<Rightarrow> ErrorResult option list" where
  "pendingErrors s =
     [dataErrorResult s, rsetErrorResult s, quitErrorResult s, startTLSErrorResult s,
      noopErrorResult s, authErrorResult s]"

text \<open>Whether the peer takes \<open>n\<close> more writes.\<close>

definition canWrite :: "nat \<Rightarrow> Session \<Rightarrow> bool" where
  "canWrite n s = (\<not> connClosed s \<and> (case writeBudget s of None \<Rightarrow> True | Some b \<Rightarrow> n \<le> b))"

text \<open>The session with its response queue written out to the peer.\<close>

definition flushedSession :: "Session \<Rightarrow> Session" where
  "flushedSession s =
     s\<lparr>wire := wire s @ map (\<lambda>r. r @ CRLF) (responseQueue s),
       writeBudget := map_option (\<lambda>b. b - length (responseQueue s)) (writeBudget s),
       responseQueue := []\<rparr>"

text \<open>What a run leaves behind: the returned error, the protocol state and envelope, the
  payloads written after the greeting and the first response, the queue and the store.\<close>

definition outcome :: "result \<Rightarrow>
    error option \<times> State \<times> string \<times> string \<times> string list \<times> ErrorResult option list \<times> bool
    \<times> string list \<times> string list \<times> bool \<times> Message list" where
  "outcome r =
     (fst r, state (snd r), heloName (snd r), mailFrom (snd r), rcptTo (snd r),
      pendingErrors (snd r), tlsState (snd r) \<noteq> None, drop 2 (wire (snd r)),
      responseQueue (snd r), pipeliningMode (snd r), storeCalls (snd r))"

text \<open>A session as it stands after the greeting and \<open>EHLO c.example\<close>, put into a given state.\<close>

definition exampleSession :: "State \<Rightarrow> Session" where
  "exampleSession st =
     (NewSession exampleConfig [] False)
       \<lparr>state := st, heloName := ''c.example'',
        capabilities := \<lparr>Size = True, Pipelining = True, EnhancedStatusCodes = True, SMTPUTF8 = True,
                          Chunking = True, STARTTLS = True, EightBitMIME = True\<rparr>\<rparr>"

text \<open>
  The envelope outside a transaction: in the states GREETING, HELO, MAIL and AUTH there is
  no sender and no recipient.
\<close>

definition envelopeEmpty :: "Session \<Rightarrow> bool" where
  "envelopeEmpty s =
     (state s \<in> set [StateGreeting, StateHelo, StateMail, StateAuth] \<longrightarrow> mailFrom s = [] \<and> rcptTo s = [])"

text \<open>
  The order of the wire. No queued response is a 421, the queue is empty outside pipelining
  mode, and no payload written so far starts with \<open>421\<close>, except the last one once the
  connection is closed.
\<close>

definition sessionInv :: "Lib \<Rightarrow> Session \<Rightarrow> bool" where
  "sessionInv lib s =
     (list_all (\<lambda>q. \<not> isResponse421 lib q) (responseQueue s)
      \<and> (pipeliningMode s \<or> responseQueue s = [])
      \<and> list_all (\<lambda>w. \<not> HasPrefix w ''421'') (if connClosed s then butlast (wire s) else wire s))"

text \<open>Two sessions with the same connection, queue and mode.\<close>

definition sameConn :: "Session \<Rightarrow> Session \<Rightarrow> bool" where
  "sameConn t s =
     (wire t = wire s \<and> connClosed t = connClosed s \<and> responseQueue t = responseQueue s
      \<and> pipeliningMode t = pipeliningMode s)"

text \<open>A step from \<open>s\<close> with result \<open>r\<close> keeps the order of the wire, keeps the mode, and
  returns an error if it closes the connection.\<close>

definition okR :: "Lib \<Rightarrow> Session \<Rightarrow> result \<Rightarrow> bool" where
  "okR lib s r =
     (sessionInv lib s \<longrightarrow>
        sessionInv lib (snd r) \<and> pipeliningMode (snd r) = pipeliningMode s
        \<and> (connClosed (snd r) \<longrightarrow> connClosed s \<or> fst r \<noteq> None))"

text \<open>As \<open>okR\<close>, for a step that may change the mode.\<close>

definition okW :: "Lib \<Rightarrow> Session \<Rightarrow> result \<Rightarrow> bool" where
  "okW lib s r =
     (sessionInv lib s \<longrightarrow>
        sessionInv lib (snd r) \<and> (connClosed (snd r) \<longrightarrow> connClosed s \<or> fst r \<noteq> None))"

section \<open>Properties\<close>

subsection \<open>Auxiliary facts\<close>


lemma list_all_takeWhile: "list_all P (takeWhile P xs)"
  by (induction xs) auto



lemma offConn_eqD:
  assumes "offConn a = offConn b"
  shows "state a = state b" "heloName a = heloName b" "mailFrom a = mailFrom b"
    "rcptTo a = rcptTo b" "authenticated a = authenticated b" "config a = config b"
    "tlsState a = tlsState b" "hostname a = hostname b" "capabilities a = capabilities b"
    "pipeliningMode a = pipeliningMode b" "advertisedSize a = advertisedSize b"
    "bdatBuffer a = bdatBuffer b" "dataErrorResult a = dataErrorResult b"
    "rsetErrorResult a = rsetErrorResult b" "quitErrorResult a = quitErrorResult b"
    "startTLSErrorResult a = startTLSErrorResult b" "noopErrorResult a = noopErrorResult b"
    "authErrorResult a = authErrorResult b" "storeCalls a = storeCalls b"
  using assms by (cases a; cases b; simp add: offConn_def)+

lemma andThen_simps [simp]:
  "andThen (Some e, s) k = (Some e, s)"
  "andThen (None, s) k = k s"
  by (simp_all add: andThen_def)

lemma snd_andThen:
  "snd (andThen r k) = (case fst r of Some e \<Rightarrow> snd r | None \<Rightarrow> snd (k (snd r)))"
  by (cases r) (auto simp: andThen_def split: option.splits)

lemma connWrite_offConn [simp]: "offConn (snd (connWrite d s)) = offConn s"
  by (simp add: connWrite_def offConn_def)

lemma flushLoop_offConn [simp]: "offConn (snd (flushLoop q s)) = offConn s"
proof (induction q arbitrary: s)
  case Nil
  then show ?case by simp
next
  case (Cons r q)
  show ?case
  proof (cases "connWrite (r @ CRLF) s")
    case (Pair e s1)
    have "offConn s1 = offConn s"
      using connWrite_offConn [of "r @ CRLF" s] Pair by simp
    then show ?thesis
      using Pair Cons.IH [of s1] by (cases e) simp_all
  qed
qed

lemma offConn_queue [simp]: "offConn (s\<lparr>responseQueue := q\<rparr>) = offConn s"
  by (simp add: offConn_def)

lemma offConn_close [simp]: "offConn (connClose s) = offConn s"
  by (simp add: offConn_def connClose_def)

lemma flushResponses_offConn [simp]: "offConn (snd (flushResponses s)) = offConn s"
proof (cases "flushLoop (responseQueue s) s")
  case (Pair e s1)
  have "offConn s1 = offConn s"
    using flushLoop_offConn [of "responseQueue s" s] Pair by simp
  then show ?thesis
    using Pair by (cases e) (simp_all add: flushResponses_def)
qed

lemma writeResponse_offConn [simp]: "offConn (snd (writeResponse lib r s)) = offConn s"
proof -
  have a: "offConn (snd (andThen (connWrite d t) (\<lambda>s1. if b then (Some EOF, connClose s1) else (None, s1)))) = offConn t"
    for d t b
    using connWrite_offConn [of d t] by (cases "connWrite d t") (auto simp: snd_andThen split: option.splits)
  have b: "offConn (snd (andThen (flushResponses t) (\<lambda>s1. andThen (connWrite d s1) (\<lambda>s2. (Some EOF, connClose s2))))) = offConn t"
    for d t
  proof (cases "flushResponses t")
    case (Pair e s1)
    have 1: "offConn s1 = offConn t"
      using flushResponses_offConn [of t] Pair by simp
    show ?thesis
    proof (cases e)
      case None
      have "offConn (snd (andThen (connWrite d s1) (\<lambda>s2. (Some EOF, connClose s2)))) = offConn s1"
        using connWrite_offConn [of d s1] by (cases "connWrite d s1") (auto simp: snd_andThen split: option.splits)
      then show ?thesis using Pair None 1 by simp
    next
      case (Some x)
      then show ?thesis using Pair 1 by simp
    qed
  qed
  show ?thesis
    unfolding writeResponse_def Let_def using a b by simp
qed

lemmas writeResponse_fields [simp] = offConn_eqD [OF writeResponse_offConn]

lemma pendingErrors_upd [simp]:
  "pendingErrors (s\<lparr>heloName := a1\<rparr>) = pendingErrors s"
  "pendingErrors (s\<lparr>state := a2\<rparr>) = pendingErrors s"
  "pendingErrors (s\<lparr>capabilities := a3\<rparr>) = pendingErrors s"
  "pendingErrors (s\<lparr>advertisedSize := a4\<rparr>) = pendingErrors s"
  "pendingErrors (s\<lparr>rcptTo := a5\<rparr>) = pendingErrors s"
  "pendingErrors (s\<lparr>mailFrom := a6\<rparr>) = pendingErrors s"
  "pendingErrors (s\<lparr>authenticated := a7\<rparr>) = pendingErrors s"
  "pendingErrors (s\<lparr>tlsState := a8\<rparr>) = pendingErrors s"
  "pendingErrors (s\<lparr>bdatBuffer := a9\<rparr>) = pendingErrors s"
  "pendingErrors (s\<lparr>storeCalls := b1\<rparr>) = pendingErrors s"
  "pendingErrors (s\<lparr>pipeliningMode := b2\<rparr>) = pendingErrors s"
  "pendingErrors (s\<lparr>responseQueue := b3\<rparr>) = pendingErrors s"
  by (simp_all add: pendingErrors_def)

lemma addStandardCapabilities_fields [simp]:
  "mailFrom (snd (addStandardCapabilities lib r parts s)) = mailFrom s"
  "rcptTo (snd (addStandardCapabilities lib r parts s)) = rcptTo s"
  "pendingErrors (snd (addStandardCapabilities lib r parts s)) = pendingErrors s"
  "authenticated (snd (addStandardCapabilities lib r parts s)) = authenticated s"
  "tlsState (snd (addStandardCapabilities lib r parts s)) = tlsState s"
  "state (snd (addStandardCapabilities lib r parts s)) = state s"
  "heloName (snd (addStandardCapabilities lib r parts s)) = heloName s"
  by (simp_all add: addStandardCapabilities_def Let_def pendingErrors_def split: prod.splits bool.splits)

lemma pendingErrors_writeResponse [simp]:
  "pendingErrors (snd (writeResponse lib r s)) = pendingErrors s"
  by (simp add: pendingErrors_def)

lemma handleEhlo_fields [simp]:
  "mailFrom (snd (handleEhlo lib h s)) = mailFrom s"
  "rcptTo (snd (handleEhlo lib h s)) = rcptTo s"
  "pendingErrors (snd (handleEhlo lib h s)) = pendingErrors s"
  "authenticated (snd (handleEhlo lib h s)) = authenticated s"
  "tlsState (snd (handleEhlo lib h s)) = tlsState s"
  by (simp_all add: handleEhlo_def buildEhloResponse_def Let_def split_beta)










lemma flushLoop_ok:
  "canWrite (length q) s \<Longrightarrow>
     flushLoop q s
       = (None, s\<lparr>wire := wire s @ map (\<lambda>r. r @ CRLF) q,
                   writeBudget := map_option (\<lambda>b. b - length q) (writeBudget s)\<rparr>)"
proof (induction q arbitrary: s)
  case Nil
  then show ?case
    by (simp add: option.map_ident)
next
  case (Cons r q)
  let ?s1 = "s\<lparr>wire := wire s @ [r @ CRLF], writeBudget := map_option (\<lambda>n. n - 1) (writeBudget s)\<rparr>"
  have w: "connWrite (r @ CRLF) s = (None, ?s1)"
    using Cons.prems by (auto simp: connWrite_def canWrite_def split: option.splits)
  have c: "canWrite (length q) ?s1"
    using Cons.prems by (auto simp: canWrite_def split: option.splits)
  show ?case
    using Cons.IH [OF c] w by (cases "writeBudget s") simp_all
qed

lemma flushResponses_ok:
  "canWrite (length (responseQueue s)) s \<Longrightarrow> flushResponses s = (None, flushedSession s)"
  by (cases "responseQueue s = []")
     (simp_all add: flushResponses_def flushedSession_def flushLoop_ok option.map_ident)

lemma parseAndLogCommand_accepts:
  "parseAndLogCommand lib line s = (Some cmd, e, s1) \<Longrightarrow> e = None \<and> s1 = s"
  by (auto simp: parseAndLogCommand_def rejectCommand_def split: option.splits if_splits prod.splits)

subsection \<open>The order of the wire is kept by every step\<close>

lemma isResponse421_prefix:
  assumes "HasPrefix r ''421''"
  shows "isResponse421 lib r"
proof -
  have "r = ''421'' @ drop (length ''421'') r"
    using assms by (metis HasPrefix_def append_take_drop_id)
  then obtain rest where r: "r = CHR ''4'' # CHR ''2'' # CHR ''1'' # rest"
    by simp
  define first0 where "first0 = (case Index r CRLF of Some idx \<Rightarrow> take idx r | None \<Rightarrow> r)"
  have f0: "\<exists>f. first0 = CHR ''4'' # CHR ''2'' # CHR ''1'' # f"
    by (cases "Index rest CRLF") (simp_all add: first0_def r HasPrefix_def CRLF_def)
  then obtain f where f: "first0 = CHR ''4'' # CHR ''2'' # CHR ''1'' # f"
    by blast
  have a: "Atoi ''421'' = Some 421"
    by code_simp
  show ?thesis
    unfolding isResponse421_def Let_def first0_def [symmetric]
    using a by (simp add: r f TrimLeftSet_def Code421_def)
qed

lemma payload_not_421:
  assumes "\<not> isResponse421 lib r"
  shows "\<not> HasPrefix (r @ CRLF) ''421''"
proof
  assume h: "HasPrefix (r @ CRLF) ''421''"
  have "HasPrefix r ''421''"
  proof (cases "length r \<ge> 3")
    case True
    then show ?thesis
      using h by (simp add: HasPrefix_def)
  next
    case False
    then consider "r = []" | a where "r = [a]" | a b where "r = [a, b]"
      by (cases r; cases "tl r"; cases "tl (tl r)") auto
    then show ?thesis
      using h by cases (simp_all add: HasPrefix_def CRLF_def)
  qed
  then show False
    using assms isResponse421_prefix by blast
qed

lemma sameConn_refl [simp]: "sameConn s s"
  by (simp add: sameConn_def)

lemma sessionInv_cong: "sameConn t s \<Longrightarrow> sessionInv lib t = sessionInv lib s"
  by (simp add: sameConn_def sessionInv_def)

lemma okR_pure: "sameConn t s \<Longrightarrow> okR lib s (e, t)"
  by (auto simp: okR_def sessionInv_cong) (simp_all add: sameConn_def)

lemma okR_trans: "okR lib s (None, s1) \<Longrightarrow> okR lib s1 r \<Longrightarrow> okR lib s r"
  by (auto simp: okR_def)

lemma okR_andThen:
  "okR lib s r \<Longrightarrow> (fst r = None \<Longrightarrow> okR lib (snd r) (k (snd r))) \<Longrightarrow> okR lib s (andThen r k)"
  by (cases r; cases "fst r") (auto simp: okR_def)

lemma okR_connWrite:
  "\<not> HasPrefix d ''421'' \<Longrightarrow> sameConn t s \<Longrightarrow> okR lib s (connWrite d t)"
  by (auto simp: okR_def connWrite_def sessionInv_def sameConn_def)

lemma okR_flushLoop:
  "list_all (\<lambda>q. \<not> isResponse421 lib q) q \<Longrightarrow> sameConn t s \<Longrightarrow> okR lib s (flushLoop q t)"
proof (induction q arbitrary: t s)
  case Nil
  then show ?case
    by (simp add: okR_pure)
next
  case (Cons r q)
  have 1: "okR lib s (connWrite (r @ CRLF) t)"
    using Cons.prems payload_not_421 [of lib r] by (intro okR_connWrite) simp_all
  have 2: "okR lib (snd (connWrite (r @ CRLF) t)) (flushLoop q (snd (connWrite (r @ CRLF) t)))"
    using Cons.prems by (intro Cons.IH) simp_all
  show ?case
    using okR_andThen [OF 1, of "flushLoop q"] 2 by simp
qed

lemma flushLoop_queue: "responseQueue (snd (flushLoop q s)) = responseQueue s"
  by (induction q arbitrary: s) (auto simp: snd_andThen connWrite_def split: option.splits)

lemma okR_flushResponses: "sameConn t s \<Longrightarrow> okR lib s (flushResponses t)"
proof -
  assume sc: "sameConn t s"
  show ?thesis
    unfolding okR_def
  proof
    assume inv: "sessionInv lib s"
    then have q: "list_all (\<lambda>q. \<not> isResponse421 lib q) (responseQueue t)"
      using sc by (simp add: sessionInv_def sameConn_def)
    have fl: "okR lib s (flushLoop (responseQueue t) t)"
      using q sc by (rule okR_flushLoop)
    obtain e s1 where r: "flushLoop (responseQueue t) t = (e, s1)"
      by (cases "flushLoop (responseQueue t) t")
    have i1: "sessionInv lib s1 \<and> pipeliningMode s1 = pipeliningMode s \<and> (connClosed s1 \<longrightarrow> connClosed s \<or> e \<noteq> None)"
      using fl inv r by (simp add: okR_def)
    show "sessionInv lib (snd (flushResponses t)) \<and> pipeliningMode (snd (flushResponses t)) = pipeliningMode s
          \<and> (connClosed (snd (flushResponses t)) \<longrightarrow> connClosed s \<or> fst (flushResponses t) \<noteq> None)"
    proof (cases "responseQueue t = []")
      case True
      then show ?thesis
        using inv sc by (simp add: flushResponses_def sessionInv_cong) (simp add: sameConn_def)
    next
      case False
      show ?thesis
      proof (cases e)
        case None
        then show ?thesis
          using False r i1 by (auto simp: flushResponses_def sessionInv_def split: if_splits)
      next
        case (Some x)
        then show ?thesis
          using False r i1 by (simp add: flushResponses_def)
      qed
    qed
  qed
qed

lemma okR_write_close:
  assumes "sessionInv lib t"
  shows "sessionInv lib (snd (andThen (connWrite d t) (\<lambda>s2. (Some EOF, connClose s2))))
         \<and> pipeliningMode (snd (andThen (connWrite d t) (\<lambda>s2. (Some EOF, connClose s2)))) = pipeliningMode t
         \<and> fst (andThen (connWrite d t) (\<lambda>s2. (Some EOF, connClose s2))) \<noteq> None"
  using assms by (auto simp: connWrite_def connClose_def sessionInv_def)

lemma okR_writeResponse: "sameConn t s \<Longrightarrow> okR lib s (writeResponse lib r t)"
proof -
  assume sc: "sameConn t s"
  have "okR lib t (writeResponse lib r t)"
    unfolding okR_def
  proof
    assume inv: "sessionInv lib t"
    consider (queue) "pipeliningMode t" "\<not> isResponse421 lib r"
      | (flush) "pipeliningMode t" "isResponse421 lib r"
      | (direct) "\<not> pipeliningMode t"
      by blast
    then show "sessionInv lib (snd (writeResponse lib r t))
               \<and> pipeliningMode (snd (writeResponse lib r t)) = pipeliningMode t
               \<and> (connClosed (snd (writeResponse lib r t)) \<longrightarrow> connClosed t \<or> fst (writeResponse lib r t) \<noteq> None)"
    proof cases
      case queue
      then show ?thesis
        using inv by (auto simp: writeResponse_def sessionInv_def split: if_splits)
    next
      case flush
      have fr: "okR lib t (flushResponses t)"
        by (rule okR_flushResponses) simp
      obtain e s1 where r: "flushResponses t = (e, s1)"
        by (cases "flushResponses t")
      have i1: "sessionInv lib s1 \<and> pipeliningMode s1 = pipeliningMode t
                \<and> (connClosed s1 \<longrightarrow> connClosed t \<or> e \<noteq> None)"
        using fr inv r by (simp add: okR_def)
      show ?thesis
      proof (cases e)
        case None
        then show ?thesis
          using flush r i1 okR_write_close [of lib s1 "r @ CRLF"] by (simp add: writeResponse_def)
      next
        case (Some x)
        then show ?thesis
          using flush r i1 by (simp add: writeResponse_def)
      qed
    next
      case direct
      show ?thesis
      proof (cases "isResponse421 lib r")
        case True
        then show ?thesis
          using direct inv okR_write_close [of lib t "r @ CRLF"] by (simp add: writeResponse_def)
      next
        case False
        have "okR lib t (connWrite (r @ CRLF) t)"
          using False payload_not_421 [of lib r] by (intro okR_connWrite) simp_all
        then show ?thesis
          using direct False inv
          by (cases "connWrite (r @ CRLF) t"; cases "fst (connWrite (r @ CRLF) t)")
             (auto simp: writeResponse_def okR_def)
      qed
    qed
  qed
  then show ?thesis
    using sc by (simp add: okR_def sessionInv_cong) (simp add: sameConn_def)
qed

lemma sameConn_upd [simp]:
  "sameConn (t\<lparr>state := a1\<rparr>) s = sameConn t s"
  "sameConn (t\<lparr>heloName := a2\<rparr>) s = sameConn t s"
  "sameConn (t\<lparr>mailFrom := a3\<rparr>) s = sameConn t s"
  "sameConn (t\<lparr>rcptTo := a4\<rparr>) s = sameConn t s"
  "sameConn (t\<lparr>authenticated := a5\<rparr>) s = sameConn t s"
  "sameConn (t\<lparr>tlsState := a6\<rparr>) s = sameConn t s"
  "sameConn (t\<lparr>capabilities := a7\<rparr>) s = sameConn t s"
  "sameConn (t\<lparr>advertisedSize := a8\<rparr>) s = sameConn t s"
  "sameConn (t\<lparr>bdatBuffer := a9\<rparr>) s = sameConn t s"
  "sameConn (t\<lparr>dataErrorResult := b1\<rparr>) s = sameConn t s"
  "sameConn (t\<lparr>rsetErrorResult := b2\<rparr>) s = sameConn t s"
  "sameConn (t\<lparr>quitErrorResult := b3\<rparr>) s = sameConn t s"
  "sameConn (t\<lparr>startTLSErrorResult := b4\<rparr>) s = sameConn t s"
  "sameConn (t\<lparr>noopErrorResult := b5\<rparr>) s = sameConn t s"
  "sameConn (t\<lparr>authErrorResult := b6\<rparr>) s = sameConn t s"
  "sameConn (t\<lparr>storeCalls := b7\<rparr>) s = sameConn t s"
  by (simp_all add: sameConn_def)

lemma sameConn_helpers [simp]:
  "sameConn (resetSessionState t) s = sameConn t s"
  "sameConn (snd (storeMessage lib io content t)) s = sameConn t s"
  "sameConn (snd (addStandardCapabilities lib r parts t)) s = sameConn t s"
  by (simp_all add: sameConn_def resetSessionState_def storeMessage_def addStandardCapabilities_def
        Let_def split_beta split: bool.splits)

lemma okR_handleStorageError: "sameConn t s \<Longrightarrow> okR lib s (handleStorageError lib err t)"
  by (simp add: handleStorageError_def okR_writeResponse)

lemma okR_handleEhlo: "sameConn t s \<Longrightarrow> okR lib s (handleEhlo lib h t)"
  by (simp add: handleEhlo_def buildEhloResponse_def Let_def split_beta okR_writeResponse)

lemma okR_handleHelo: "okR lib s (handleHelo lib cmd s)"
  by (simp add: handleHelo_def Let_def okR_writeResponse okR_handleEhlo okR_pure
      split: list.splits option.splits)

lemma okR_handleMail: "okR lib s (handleMail lib cmd s)"
  by (simp add: handleMail_def Let_def okR_writeResponse okR_pure split: list.splits option.splits)

lemma okR_handleRcpt: "okR lib s (handleRcpt lib cmd s)"
  by (simp add: handleRcpt_def Let_def okR_writeResponse okR_pure split: list.splits option.splits)

lemma okR_handleVrfy: "okR lib s (handleVrfy lib cmd s)"
  by (simp add: handleVrfy_def Let_def okR_writeResponse)

lemma okR_handleRset: "okR lib s (handleRset lib s)"
  by (simp add: handleRset_def okR_writeResponse split: option.splits)

lemma okR_handleNoop: "okR lib s (handleNoop lib s)"
  by (simp add: handleNoop_def okR_writeResponse split: option.splits)

lemma okR_handleQuit: "okR lib s (handleQuit lib s)"
  by (auto simp: handleQuit_def okR_writeResponse okR_pure intro!: okR_andThen split: option.splits)

lemma okR_handleStartTLS: "okR lib s (handleStartTLS lib io s)"
  by (auto simp: handleStartTLS_def okR_writeResponse okR_pure intro!: okR_andThen split: option.splits)

lemma okR_handleData: "okR lib s (handleData lib io s)"
  by (auto simp: handleData_def okR_writeResponse okR_pure okR_handleStorageError split_beta
      intro!: okR_andThen split: option.splits sum.splits)

lemma okR_handleBdat: "okR lib s (handleBdat lib io cmd s)"
  by (auto simp: handleBdat_def Let_def okR_writeResponse okR_pure okR_handleStorageError split_beta
      split: option.splits list.splits sum.splits)

lemma okR_authWrites: "sameConn t s \<Longrightarrow> okR lib s (authWrites ps t)"
proof (induction ps arbitrary: t s)
  case Nil
  then show ?case
    by (simp add: okR_pure)
next
  case (Cons p ps)
  have 1: "okR lib s (connWrite (''334 '' @ p @ CRLF) t)"
    using Cons.prems by (intro okR_connWrite) (simp_all add: HasPrefix_def)
  have 2: "okR lib (snd (connWrite (''334 '' @ p @ CRLF) t)) (authWrites ps (snd (connWrite (''334 '' @ p @ CRLF) t)))"
    by (intro Cons.IH) simp
  show ?case
    using okR_andThen [OF 1, of "authWrites ps"] 2 by simp
qed

lemma connClosed_connWrite [simp]: "connClosed (snd (connWrite d s)) = connClosed s"
  by (simp add: connWrite_def)

lemma connClosed_authWrites [simp]: "connClosed (snd (authWrites ps s)) = connClosed s"
  by (induction ps arbitrary: s) (auto simp: snd_andThen split: option.splits)

lemma connClosed_flushLoop [simp]: "connClosed (snd (flushLoop q s)) = connClosed s"
  by (induction q arbitrary: s) (auto simp: snd_andThen split: option.splits)

lemma connClosed_flushResponses [simp]: "connClosed (snd (flushResponses s)) = connClosed s"
proof -
  obtain e s1 where r: "flushLoop (responseQueue s) s = (e, s1)"
    by (cases "flushLoop (responseQueue s) s")
  have "connClosed s1 = connClosed s"
    using connClosed_flushLoop [of "responseQueue s" s] r by simp
  then show ?thesis
    using r by (cases e) (simp_all add: flushResponses_def)
qed

lemma okR_handlerAuthenticate: "okR lib s (None, snd (handlerAuthenticate io s))"
proof -
  have a: "okR lib s (authWrites (authPrompts io) s)"
    by (rule okR_authWrites) simp
  have c: "connClosed (snd (authWrites (authPrompts io) s)) = connClosed s"
    by simp
  show ?thesis
    using a c
    by (cases "authWrites (authPrompts io) s"; cases "fst (authWrites (authPrompts io) s)")
       (auto simp: okR_def handlerAuthenticate_def)
qed

lemma okR_handleAuth: "okR lib s (handleAuth lib io cmd s)"
proof -
  obtain u s1 where h: "handlerAuthenticate io s = (u, s1)"
    by (cases "handlerAuthenticate io s")
  have t: "okR lib s (None, s1)"
    using okR_handlerAuthenticate [of lib s io] h by simp
  have w: "okR lib s (writeResponse lib r t)" if "sameConn t s1" for r t
    using that by (intro okR_trans [OF t] okR_writeResponse)
  have w1: "okR lib s (writeResponse lib r s1)" for r
    by (rule w) simp
  have w2: "okR lib s (writeResponse lib r (s1\<lparr>authenticated := True, state := StateMail\<rparr>))" for r
    by (rule w) simp
  have a: "okR lib s (case (u, s1) of
                    (None, s1) \<Rightarrow> writeResponse lib ''535 Authentication failed'' s1
                  | (Some username, s1) \<Rightarrow>
                      (case authUser io of
                         None \<Rightarrow> writeResponse lib ''535 Authentication failed'' s1
                       | Some active \<Rightarrow>
                           (if \<not> active
                            then writeResponse lib ''535 Authentication failed: account inactive'' s1
                            else writeResponse lib ''235 Authentication successful''
                                   (s1\<lparr>authenticated := True, state := StateMail\<rparr>))))"
    by (cases u; cases "authUser io") (simp_all add: w1 w2)
  show ?thesis
    unfolding handleAuth_def h
    using a by (simp add: okR_writeResponse okR_pure split: option.splits list.splits)
qed

lemma okR_dispatch: "okR lib s (dispatch lib io cmd s)"
  by (simp add: dispatch_def okR_handleHelo okR_handleAuth okR_handleMail okR_handleRcpt okR_handleData
      okR_handleBdat okR_handleRset okR_handleNoop okR_handleStartTLS okR_handleQuit okR_handleVrfy
      okR_writeResponse)

lemma okR_okW: "okR lib s r \<Longrightarrow> okW lib s r"
  by (simp add: okR_def okW_def)

lemma flushResponses_empties:
  assumes "fst (flushResponses s) = None"
  shows "responseQueue (snd (flushResponses s)) = []"
proof -
  obtain e s1 where r: "flushLoop (responseQueue s) s = (e, s1)"
    by (cases "flushLoop (responseQueue s) s")
  show ?thesis
    using r assms by (cases e; cases "responseQueue s = []") (simp_all add: flushResponses_def)
qed

lemma okW_flushAndReturn:
  assumes "sessionInv lib s"
  shows "sessionInv lib (snd (flushAndReturn e s))"
    and "connClosed (snd (flushAndReturn e s)) = connClosed s"
    and "e \<noteq> None \<Longrightarrow> fst (flushAndReturn e s) \<noteq> None"
proof -
  have f: "okR lib s (flushResponses s)"
    by (rule okR_flushResponses) simp
  have c: "connClosed (snd (flushResponses s)) = connClosed s"
    by simp
  show "sessionInv lib (snd (flushAndReturn e s))"
    using f assms by (cases "flushResponses s"; cases "fst (flushResponses s)")
                     (auto simp: flushAndReturn_def okR_def)
  show "connClosed (snd (flushAndReturn e s)) = connClosed s"
    using c by (cases "flushResponses s"; cases "fst (flushResponses s)")
               (auto simp: flushAndReturn_def)
  show "e \<noteq> None \<Longrightarrow> fst (flushAndReturn e s) \<noteq> None"
    by (cases "flushResponses s"; cases "fst (flushResponses s)") (auto simp: flushAndReturn_def)
qed

lemma okW_after_dispatch:
  assumes "sessionInv lib t"
  shows "okW lib t (case dispatch lib io cmd t of
                  (cmdErr, s3) \<Rightarrow>
                    (if cmdErr \<noteq> None \<or> b then flushAndReturn cmdErr s3 else (cmdErr, s3)))"
proof -
  obtain cmdErr s3 where d: "dispatch lib io cmd t = (cmdErr, s3)"
    by (cases "dispatch lib io cmd t")
  have i3: "sessionInv lib s3 \<and> (connClosed s3 \<longrightarrow> connClosed t \<or> cmdErr \<noteq> None)"
    using okR_dispatch [of lib t io cmd] assms d by (simp add: okR_def)
  show ?thesis
    using i3 okW_flushAndReturn [of lib s3 cmdErr] d by (auto simp: okW_def)
qed

lemma parseAndLogCommand_cases:
  "(\<exists>cmd. parseAndLogCommand lib line s = (Some cmd, None, s))
   \<or> (\<exists>r. parseAndLogCommand lib line s = rejectCommand lib r s)"
proof (cases "ParseCommand lib line")
  case None
  then show ?thesis
    by (simp add: parseAndLogCommand_def) blast
next
  case (Some cmd)
  show ?thesis
  proof (cases "IsValid cmd \<and> IsAllowedInState cmd (state s) \<and> ValidateArgs lib cmd = None")
    case True
    then show ?thesis
      using Some by (simp add: parseAndLogCommand_def)
  next
    case False
    then have "\<exists>r. parseAndLogCommand lib line s = rejectCommand lib r s"
      using Some by (cases "ValidateArgs lib cmd") (auto simp: parseAndLogCommand_def)
    then show ?thesis
      by blast
  qed
qed

lemma okW_handleCommand: "okW lib s (handleCommand lib io line s)"
  unfolding okW_def
proof
  assume inv: "sessionInv lib s"
  let ?goal = "sessionInv lib (snd (handleCommand lib io line s))
       \<and> (connClosed (snd (handleCommand lib io line s)) \<longrightarrow>
            connClosed s \<or> fst (handleCommand lib io line s) \<noteq> None)"
  obtain c e s1 where p: "parseAndLogCommand lib line s = (c, e, s1)"
    by (cases "parseAndLogCommand lib line s") auto
  show ?goal
  proof (cases c)
    case None
    obtain r where rj: "rejectCommand lib r s = (None, e, s1)"
      using parseAndLogCommand_cases [of lib line s] p None by auto
    have "okR lib s (writeResponse lib r s)"
      by (rule okR_writeResponse) simp
    then have "sessionInv lib s1 \<and> (connClosed s1 \<longrightarrow> connClosed s \<or> e \<noteq> None)"
      using rj inv
      by (cases "writeResponse lib r s"; cases "fst (writeResponse lib r s)")
         (auto simp: rejectCommand_def okR_def)
    then show ?thesis
      using p None by (cases e) (simp_all add: handleCommand_def)
  next
    case (Some cmd)
    have es: "e = None \<and> s1 = s"
      using parseAndLogCommand_accepts p Some by blast
    have p': "parseAndLogCommand lib line s = (Some cmd, None, s)"
      using p Some es by simp
    let ?rest = "\<lambda>s2. case dispatch lib io cmd s2 of
                        (cmdErr, s3) \<Rightarrow>
                          (if cmdErr \<noteq> None \<or> breaksPipelining (Name cmd)
                           then flushAndReturn cmdErr s3 else (cmdErr, s3))"
    have hc: "handleCommand lib io line s
                = andThen (if breaksPipelining (Name cmd)
                           then andThen (flushResponses s) (\<lambda>s2. (None, s2\<lparr>pipeliningMode := False\<rparr>))
                           else (None, s)) ?rest"
      by (simp add: handleCommand_def p')
    have rest: "okW lib t (?rest t)" if "sessionInv lib t" for t
      using okW_after_dispatch [OF that, where b = "breaksPipelining (Name cmd)"] .
    show ?thesis
    proof (cases "breaksPipelining (Name cmd)")
      case False
      then have "handleCommand lib io line s = ?rest s"
        using hc by simp
      then have "okW lib s (handleCommand lib io line s)"
        using rest [OF inv] by (simp only:)
      then show ?thesis
        using inv unfolding okW_def by blast
    next
      case True
      have f: "okR lib s (flushResponses s)"
        by (rule okR_flushResponses) simp
      obtain fe s2 where fr: "flushResponses s = (fe, s2)"
        by (cases "flushResponses s")
      have i2: "sessionInv lib s2 \<and> connClosed s2 = connClosed s"
        using f inv fr connClosed_flushResponses [of s] by (simp add: okR_def)
      show ?thesis
      proof (cases fe)
        case (Some x)
        then have "handleCommand lib io line s = (Some x, s2)"
          using hc True fr by simp
        then show ?thesis
          using i2 by simp
      next
        case None
        have q: "responseQueue s2 = []"
          using flushResponses_empties [of s] fr None by simp
        have i2': "sessionInv lib (s2\<lparr>pipeliningMode := False\<rparr>)"
          using i2 q by (auto simp: sessionInv_def split: if_splits)
        have c2: "connClosed (s2\<lparr>pipeliningMode := False\<rparr>) = connClosed s"
          using i2 by simp
        have "handleCommand lib io line s = ?rest (s2\<lparr>pipeliningMode := False\<rparr>)"
          using hc True fr None by simp
        then have "okW lib (s2\<lparr>pipeliningMode := False\<rparr>) (handleCommand lib io line s)"
          using rest [OF i2'] by (simp only:)
        then show ?thesis
          using i2' unfolding okW_def c2 by blast
      qed
    qed
  qed
qed

lemma sessionInv_runCommandLoop:
  "sessionInv lib s \<Longrightarrow> sessionInv lib (snd (runCommandLoop lib input s))"
proof (induction input arbitrary: s)
  case Nil
  then show ?case by simp
next
  case (Cons x input)
  obtain raw io where x: "x = (raw, io)"
    by (cases x)
  let ?s1 = "enterPipelining io s"
  have i1: "sessionInv lib ?s1"
    using Cons.prems by (auto simp: sessionInv_def enterPipelining_def split: if_splits)
  have w: "okR lib s (writeResponse lib ''500 Command too long'' s)"
    by (rule okR_writeResponse) simp
  have hc: "okW lib ?s1 (handleCommand lib io (TrimSpace lib raw) ?s1)"
    by (rule okW_handleCommand)
  show ?case
  proof (cases "TrimSpace lib raw = []")
    case True
    then show ?thesis
      using Cons x by simp
  next
    case False
    show ?thesis
    proof (cases "length (TrimSpace lib raw) > MaxCommandLength")
      case True
      then show ?thesis
        using False x w Cons.prems Cons.IH
        by (cases "writeResponse lib ''500 Command too long'' s";
            cases "fst (writeResponse lib ''500 Command too long'' s)")
           (auto simp: Let_def okR_def)
    next
      case long: False
      show ?thesis
        using False long x hc i1 Cons.IH
        by (cases "handleCommand lib io (TrimSpace lib raw) ?s1";
            cases "fst (handleCommand lib io (TrimSpace lib raw) ?s1)")
           (auto simp: Let_def okW_def simp del: TrimSpace_def split: if_splits)
    qed
  qed
qed

lemma sessionInv_connClose: "sessionInv lib t \<Longrightarrow> sessionInv lib (connClose t)"
  by (cases "connClosed t") (auto simp: sessionInv_def connClose_def list_all_iff dest: in_set_butlastD)

lemma runCommandLoop_stops:
  assumes "TrimSpace lib raw \<noteq> []" and "length (TrimSpace lib raw) \<le> MaxCommandLength"
    and "fst (handleCommand lib io (TrimSpace lib raw) (enterPipelining io s)) = Some err"
  shows "runCommandLoop lib ((raw, io) # rest) s
           = (if err = EOF then None else Some err,
              snd (handleCommand lib io (TrimSpace lib raw) (enterPipelining io s)))"
  using assms
  by (cases "handleCommand lib io (TrimSpace lib raw) (enterPipelining io s)") (simp add: Let_def)

lemma sessionInv_Handle:
  "sessionInv lib (snd (Handle lib input (NewSession cfg h tls)))
   \<and> connClosed (snd (Handle lib input (NewSession cfg h tls)))"
proof -
  let ?s0 = "NewSession cfg h tls"
  have i0: "sessionInv lib ?s0"
    by (simp add: sessionInv_def NewSession_def)
  have g: "okR lib ?s0 (setupSessionBehaviourAndGreet lib ?s0)"
    by (auto simp: setupSessionBehaviourAndGreet_def Let_def okR_pure okR_writeResponse
        intro!: okR_andThen)
  obtain e s1 where su: "setupSessionBehaviourAndGreet lib ?s0 = (e, s1)"
    by (cases "setupSessionBehaviourAndGreet lib ?s0")
  have i1: "sessionInv lib s1"
    using g i0 su by (simp add: okR_def)
  have i2: "sessionInv lib (snd (andThen (setupSessionBehaviourAndGreet lib ?s0) (runCommandLoop lib input)))"
    using su i1 sessionInv_runCommandLoop [OF i1, of input] by (cases e) simp_all
  show ?thesis
    using sessionInv_connClose [OF i2] by (simp add: Handle_def split_beta connClose_def)
qed

lemma sessionInv_CloseWith421:
  assumes "sessionInv lib s"
  shows "sessionInv lib (snd (CloseWith421 closeErr reason s))
         \<and> connClosed (snd (CloseWith421 closeErr reason s))"
proof -
  let ?s1 = "snd (flushResponses s)"
  let ?d = "(fmtInt Code421 @ '' '' @ (if reason \<noteq> [] then reason else GetErrorMessage Code421)) @ CRLF"
  have i1: "sessionInv lib ?s1"
    using okR_flushResponses [of s s lib] assms by (simp add: okR_def)
  show ?thesis
  proof (cases "connClosed ?s1 \<or> writeBudget ?s1 = Some 0")
    case True
    then have "snd (CloseWith421 closeErr reason s) = connClose ?s1"
      by (simp add: CloseWith421_def Let_def connWrite_def)
    then show ?thesis
      using sessionInv_connClose [OF i1] by (simp add: connClose_def)
  next
    case False
    then have "snd (CloseWith421 closeErr reason s)
                 = connClose (?s1\<lparr>wire := wire ?s1 @ [?d],
                                     writeBudget := map_option (\<lambda>n. n - 1) (writeBudget ?s1)\<rparr>)"
      by (simp add: CloseWith421_def Let_def connWrite_def)
    then show ?thesis
      using i1 False by (simp add: connClose_def sessionInv_def)
  qed
qed

lemma CloseWith421_ok:
  assumes "canWrite (Suc (length (responseQueue s))) s"
  shows "wire (snd (CloseWith421 closeErr reason s))
           = wire s @ map (\<lambda>q. q @ CRLF) (responseQueue s)
               @ [''421 '' @ (if reason \<noteq> [] then reason else GetErrorMessage Code421) @ CRLF]"
proof -
  have c0: "canWrite (length (responseQueue s)) s"
    using assms by (auto simp: canWrite_def split: option.splits)
  have f: "fmtInt Code421 = ''421''"
    by code_simp
  have w: "connWrite d (flushedSession s)
             = (None, (flushedSession s)
                  \<lparr>wire := wire (flushedSession s) @ [d],
                   writeBudget := map_option (\<lambda>n. n - 1) (writeBudget (flushedSession s))\<rparr>)" for d
    using assms by (auto simp: connWrite_def canWrite_def flushedSession_def split: option.splits)
  let ?d = "(fmtInt Code421 @ '' '' @ (if reason \<noteq> [] then reason else GetErrorMessage Code421)) @ CRLF"
  have "snd (CloseWith421 closeErr reason s)
          = connClose ((flushedSession s)
                  \<lparr>wire := wire (flushedSession s) @ [?d],
                   writeBudget := map_option (\<lambda>n. n - 1) (writeBudget (flushedSession s))\<rparr>)"
    by (simp add: CloseWith421_def Let_def flushResponses_ok [OF c0] w)
  then show ?thesis
    by (simp add: f connClose_def flushedSession_def)
qed

subsection \<open>Commands that reach their handler\<close>

lemma flushAndReturn_offConn [simp]: "offConn (snd (flushAndReturn e s)) = offConn s"
proof (cases "flushResponses s")
  case (Pair fe s1)
  have "offConn s1 = offConn s"
    using flushResponses_offConn [of s] Pair by simp
  then show ?thesis
    using Pair by (cases fe) (simp_all add: flushAndReturn_def)
qed

lemmas flushResponses_fields [simp] = offConn_eqD [OF flushResponses_offConn]

lemmas flushAndReturn_fields [simp] = offConn_eqD [OF flushAndReturn_offConn]

lemma pendingErrors_flush [simp]:
  "pendingErrors (snd (flushResponses s)) = pendingErrors s"
  "pendingErrors (snd (flushAndReturn e s)) = pendingErrors s"
  by (simp_all add: pendingErrors_def)


lemma parseAndLogCommand_accepted:
  assumes "ParseCommand lib line = Some cmd" and "IsValid cmd" and "IsAllowedInState cmd (state s)"
    and "ValidateArgs lib cmd = None"
  shows "parseAndLogCommand lib line s = (Some cmd, None, s)"
  using assms by (simp add: parseAndLogCommand_def)

lemma handleCommand_nonbreaking:
  assumes "parseAndLogCommand lib line s = (Some cmd, None, s)" and "\<not> breaksPipelining (Name cmd)"
  shows "handleCommand lib io line s
           = (case dispatch lib io cmd s of
                (cmdErr, s3) \<Rightarrow> if cmdErr \<noteq> None then flushAndReturn cmdErr s3 else (None, s3))"
  using assms by (auto simp: handleCommand_def split: prod.splits)


lemma flushedSession_fields [simp]:
  "state (flushedSession s) = state s"
  "capabilities (flushedSession s) = capabilities s"
  "tlsState (flushedSession s) = tlsState s"
  "mailFrom (flushedSession s) = mailFrom s"
  "rcptTo (flushedSession s) = rcptTo s"
  "dataErrorResult (flushedSession s) = dataErrorResult s"
  "rsetErrorResult (flushedSession s) = rsetErrorResult s"
  "quitErrorResult (flushedSession s) = quitErrorResult s"
  "startTLSErrorResult (flushedSession s) = startTLSErrorResult s"
  "noopErrorResult (flushedSession s) = noopErrorResult s"
  "authErrorResult (flushedSession s) = authErrorResult s"
  "bdatBuffer (flushedSession s) = bdatBuffer s"
  "advertisedSize (flushedSession s) = advertisedSize s"
  by (simp_all add: flushedSession_def)






















subsection \<open>What one command can change\<close>

lemma parseAndLogCommand_parsed:
  "parseAndLogCommand lib line s = (Some cmd, e, s1) \<Longrightarrow>
     ParseCommand lib line = Some cmd \<and> IsAllowedInState cmd (state s)"
  by (auto simp: parseAndLogCommand_def rejectCommand_def split: option.splits if_splits prod.splits)

lemma handleCommand_rejected:
  assumes "parseAndLogCommand lib line s = rejectCommand lib r s"
  shows "snd (handleCommand lib io line s) = snd (writeResponse lib r s)"
  using assms
  by (cases "writeResponse lib r s"; cases "fst (writeResponse lib r s)")
     (auto simp: handleCommand_def rejectCommand_def)

text \<open>A property of the session that does not depend on the connection, the queue or the
  mode is kept by \<open>handleCommand\<close> if the handlers keep it.\<close>

lemma inv_handleCommand:
  assumes conn: "\<And>a b. offConn a = offConn b \<Longrightarrow> P a = P b"
    and mode: "\<And>a m. P (a\<lparr>pipeliningMode := m\<rparr>) = P a"
    and disp: "\<And>cmd t. parseAndLogCommand lib line s = (Some cmd, None, s) \<Longrightarrow> state t = state s \<Longrightarrow>
                 P t \<Longrightarrow> P (snd (dispatch lib io cmd t))"
    and init: "P s"
  shows "P (snd (handleCommand lib io line s))"
proof -
  have wr: "P (snd (writeResponse lib r a)) = P a" for r a
    by (rule conn) simp
  have fl: "P (snd (flushResponses a)) = P a" for a
    by (rule conn) simp
  have fr: "P (snd (flushAndReturn e a)) = P a" for e a
    by (rule conn) simp
  consider (acc) cmd where "parseAndLogCommand lib line s = (Some cmd, None, s)"
    | (rej) r where "parseAndLogCommand lib line s = rejectCommand lib r s"
    using parseAndLogCommand_cases [of lib line s] by blast
  then show ?thesis
  proof cases
    case rej
    show ?thesis
      using handleCommand_rejected [OF rej, of io] wr [of r s] init by simp
  next
    case acc
    have rest: "P (snd (case dispatch lib io cmd t of
                          (cmdErr, s3) \<Rightarrow>
                            (if cmdErr \<noteq> None \<or> b then flushAndReturn cmdErr s3 else (cmdErr, s3))))"
      if "state t = state s" and "P t" for t b
    proof -
      obtain cmdErr s3 where d: "dispatch lib io cmd t = (cmdErr, s3)"
        by (cases "dispatch lib io cmd t")
      have "P s3"
        using disp [OF acc that] d by simp
      then show ?thesis
        using d fr [of cmdErr s3] by simp
    qed
    show ?thesis
    proof (cases "breaksPipelining (Name cmd)")
      case False
      then have "handleCommand lib io line s
                   = (case dispatch lib io cmd s of
                        (cmdErr, s3) \<Rightarrow>
                          (if cmdErr \<noteq> None \<or> False then flushAndReturn cmdErr s3 else (cmdErr, s3)))"
        by (simp add: handleCommand_def acc)
      then show ?thesis
        using rest [where t = s and b = False] init by simp
    next
      case True
      obtain fe s2 where f: "flushResponses s = (fe, s2)"
        by (cases "flushResponses s")
      have p2: "P s2" and st2: "state s2 = state s"
        using fl [of s] f init flushResponses_fields(1) [of s] by simp_all
      show ?thesis
      proof (cases fe)
        case (Some x)
        then have "handleCommand lib io line s = (Some x, s2)"
          using True f by (simp add: handleCommand_def acc)
        then show ?thesis
          using p2 by simp
      next
        case None
        then have "handleCommand lib io line s
                     = (case dispatch lib io cmd (s2\<lparr>pipeliningMode := False\<rparr>) of
                          (cmdErr, s3) \<Rightarrow>
                            (if cmdErr \<noteq> None \<or> True then flushAndReturn cmdErr s3 else (cmdErr, s3)))"
          using True f by (simp add: handleCommand_def acc)
        then show ?thesis
          using rest [where t = "s2\<lparr>pipeliningMode := False\<rparr>" and b = True] p2 st2 mode [where a = s2 and m = False] by simp
      qed
    qed
  qed
qed

lemma authWrites_offConn [simp]: "offConn (snd (authWrites ps s)) = offConn s"
proof (induction ps arbitrary: s)
  case Nil
  then show ?case by simp
next
  case (Cons p ps)
  show ?case
  proof (cases "connWrite (''334 '' @ p @ CRLF) s")
    case (Pair e s1)
    have "offConn s1 = offConn s"
      using connWrite_offConn [of "''334 '' @ p @ CRLF" s] by (simp only: Pair snd_conv)
    then show ?thesis
      using Pair Cons.IH [of s1] by (cases e) simp_all
  qed
qed

lemma handlerAuthenticate_offConn [simp]: "offConn (snd (handlerAuthenticate io s)) = offConn s"
proof (cases "authWrites (authPrompts io) s")
  case (Pair e s1)
  have "offConn s1 = offConn s"
    using authWrites_offConn [of "authPrompts io" s] Pair by simp
  then show ?thesis
    using Pair by (cases e) (simp_all add: handlerAuthenticate_def)
qed

lemmas handlerAuthenticate_fields [simp] = offConn_eqD [OF handlerAuthenticate_offConn]

lemma pendingErrors_offConn: "offConn a = offConn b \<Longrightarrow> pendingErrors a = pendingErrors b"
  using offConn_eqD [of a b] by (simp add: pendingErrors_def)

lemma handleHelo_keeps:
  "mailFrom (snd (handleHelo lib cmd s)) = mailFrom s"
  "rcptTo (snd (handleHelo lib cmd s)) = rcptTo s"
  "pendingErrors (snd (handleHelo lib cmd s)) = pendingErrors s"
  "authenticated (snd (handleHelo lib cmd s)) = authenticated s"
  "tlsState (snd (handleHelo lib cmd s)) = tlsState s"
  by (simp_all add: handleHelo_def Let_def split: list.splits option.splits)










subsection \<open>The envelope is empty outside a transaction\<close>

lemma envelopeEmpty_cong: "offConn a = offConn b \<Longrightarrow> envelopeEmpty a = envelopeEmpty b"
  using offConn_eqD [of a b] by (simp add: envelopeEmpty_def)

lemma envelopeEmpty_mode [simp]: "envelopeEmpty (a\<lparr>pipeliningMode := m\<rparr>) = envelopeEmpty a"
  by (simp add: envelopeEmpty_def)

lemma envelopeEmpty_writeResponse [simp]:
  "envelopeEmpty (snd (writeResponse lib r s)) = envelopeEmpty s"
  by (rule envelopeEmpty_cong) simp

lemma handleEhlo_state [simp]: "state (snd (handleEhlo lib h s)) = state s"
  by (simp add: handleEhlo_def buildEhloResponse_def Let_def split_beta)

lemma envelopeEmpty_handleHelo:
  "envelopeEmpty s \<Longrightarrow> envelopeEmpty (snd (handleHelo lib cmd s))"
  using handleHelo_keeps(1,2) [of lib cmd s]
  by (auto simp: envelopeEmpty_def handleHelo_def Let_def split: list.splits option.splits if_splits)

lemma envelopeEmpty_handleAuth:
  "envelopeEmpty s \<Longrightarrow> envelopeEmpty (snd (handleAuth lib io cmd s))"
proof -
  assume e: "envelopeEmpty s"
  obtain u s1 where h: "handlerAuthenticate io s = (u, s1)"
    by (cases "handlerAuthenticate io s")
  have o: "offConn s1 = offConn s"
    using handlerAuthenticate_offConn [of io s] h by simp
  have e1: "envelopeEmpty s1" and st: "state s1 = state s"
    using envelopeEmpty_cong [OF o] e offConn_eqD(1) [OF o] by simp_all
  have e2: "envelopeEmpty (s1\<lparr>authenticated := True, state := StateMail\<rparr>)"
    if "state s = StateMail \<or> state s = StateAuth"
    using e1 st that by (auto simp: envelopeEmpty_def)
  show ?thesis
    unfolding handleAuth_def h
    using e e1 e2 by (cases u; cases "authUser io"; auto split: option.splits list.splits)
qed

lemma envelopeEmpty_handleMail:
  "envelopeEmpty s \<Longrightarrow> envelopeEmpty (snd (handleMail lib cmd s))"
  by (auto simp: handleMail_def Let_def envelopeEmpty_def split: list.splits option.splits)

lemma envelopeEmpty_handleRcpt:
  "envelopeEmpty s \<Longrightarrow> envelopeEmpty (snd (handleRcpt lib cmd s))"
  by (auto simp: handleRcpt_def Let_def envelopeEmpty_def split: list.splits option.splits)

lemma envelopeEmpty_handleVrfy:
  "envelopeEmpty s \<Longrightarrow> envelopeEmpty (snd (handleVrfy lib cmd s))"
  by (simp add: handleVrfy_def Let_def)

lemma envelopeEmpty_handleRset:
  "envelopeEmpty (snd (handleRset lib s)) = (rsetErrorResult s = None \<or> envelopeEmpty s)"
  by (auto simp: handleRset_def envelopeEmpty_def split: option.splits)

lemma envelopeEmpty_handleNoop:
  "envelopeEmpty s \<Longrightarrow> envelopeEmpty (snd (handleNoop lib s))"
  by (simp add: handleNoop_def split: option.splits)

lemma envelopeEmpty_handleQuit:
  "envelopeEmpty s \<Longrightarrow> envelopeEmpty (snd (handleQuit lib s))"
proof -
  assume e: "envelopeEmpty s"
  have a: "envelopeEmpty (snd (andThen (writeResponse lib r s) (\<lambda>s1. (Some EOF, s1\<lparr>state := StateQuit\<rparr>))))"
    for r
  proof (cases "writeResponse lib r s")
    case (Pair x s1)
    have "envelopeEmpty s1"
      using envelopeEmpty_writeResponse [of lib r s] Pair e by simp
    then show ?thesis
      using Pair by (cases x) (simp_all add: envelopeEmpty_def)
  qed
  show ?thesis
    by (simp add: handleQuit_def a split: option.splits)
qed

lemma envelopeEmpty_handleStartTLS:
  assumes "envelopeEmpty s" and "state s = StateHelo \<or> state s = StateMail"
  shows "envelopeEmpty (snd (handleStartTLS lib io s))"
proof -
  obtain x s1 where w: "writeResponse lib ''220 Ready to start TLS'' s = (x, s1)"
    by (cases "writeResponse lib ''220 Ready to start TLS'' s")
  have o: "offConn s1 = offConn s"
    using writeResponse_offConn [of lib "''220 Ready to start TLS''" s] w by simp
  have e1: "envelopeEmpty s1" and m: "mailFrom s1 = [] \<and> rcptTo s1 = []"
    using envelopeEmpty_cong [OF o] assms offConn_eqD(1,3,4) [OF o] by (auto simp: envelopeEmpty_def)
  have e2: "envelopeEmpty (s1\<lparr>tlsState := Some (), state := StateHelo\<rparr>)"
    using m by (simp add: envelopeEmpty_def)
  show ?thesis
    using assms(1) e1 e2 w by (cases x) (simp_all add: handleStartTLS_def split: option.splits)
qed

lemma envelopeEmpty_reset [simp]: "envelopeEmpty (resetSessionState s)"
  by (simp add: envelopeEmpty_def resetSessionState_def)

lemma storeMessage_fields [simp]:
  "state (snd (storeMessage lib io content s)) = state s"
  "mailFrom (snd (storeMessage lib io content s)) = mailFrom s"
  "rcptTo (snd (storeMessage lib io content s)) = rcptTo s"
  by (simp_all add: storeMessage_def Let_def split_beta)

lemma envelopeEmpty_handleStorageError [simp]:
  "envelopeEmpty (snd (handleStorageError lib err s)) = envelopeEmpty s"
  by (simp add: handleStorageError_def)

lemma envelopeEmpty_handleData:
  "envelopeEmpty s \<Longrightarrow> envelopeEmpty (snd (handleData lib io s))"
proof -
  assume e: "envelopeEmpty s"
  obtain x s1 where w: "writeResponse lib ''354 End data with <CR><LF>.<CR><LF>'' (s\<lparr>state := StateData\<rparr>) = (x, s1)"
    by (cases "writeResponse lib ''354 End data with <CR><LF>.<CR><LF>'' (s\<lparr>state := StateData\<rparr>)")
  have o: "offConn s1 = offConn (s\<lparr>state := StateData\<rparr>)"
    using writeResponse_offConn [of lib "''354 End data with <CR><LF>.<CR><LF>''" "s\<lparr>state := StateData\<rparr>"] w
    by simp
  have st: "state s1 = StateData"
    using offConn_eqD(1) [OF o] by simp
  have e1: "envelopeEmpty s1"
    using st by (simp add: envelopeEmpty_def)
  have e2: "envelopeEmpty (snd (storeMessage lib io c s1))" for c
    using st by (simp add: envelopeEmpty_def)
  have k: "envelopeEmpty (snd (case readMessageContent io s1 of
                                 Inl err \<Rightarrow> (Some err, s1)
                               | Inr messageContent \<Rightarrow>
                                   (case storeMessage lib io messageContent s1 of
                                      (Some err, s2) \<Rightarrow> handleStorageError lib err s2
                                    | (None, s2) \<Rightarrow>
                                        writeResponse lib ''250 OK Message accepted for delivery''
                                          (resetSessionState s2))))"
  proof (cases "readMessageContent io s1")
    case (Inl a)
    then show ?thesis
      using e1 by simp
  next
    case (Inr c)
    obtain y s2 where sm: "storeMessage lib io c s1 = (y, s2)"
      by (cases "storeMessage lib io c s1")
    have "envelopeEmpty s2"
      using e2 [of c] sm by simp
    then show ?thesis
      using Inr sm by (cases y) simp_all
  qed
  show ?thesis
    using e e1 k w by (cases x) (simp_all add: handleData_def split: option.splits)
qed

lemma envelopeEmpty_handleBdat:
  "envelopeEmpty s \<Longrightarrow> envelopeEmpty (snd (handleBdat lib io cmd s))"
proof -
  assume e: "envelopeEmpty s"
  have k: "envelopeEmpty (snd (case storeMessage lib io c t of
                                 (Some err, s2) \<Rightarrow> handleStorageError lib err s2
                               | (None, s2) \<Rightarrow>
                                   writeResponse lib ''250 OK Message accepted for delivery''
                                     (resetSessionState (s2\<lparr>bdatBuffer := []\<rparr>))))"
    if "envelopeEmpty t" for c t
  proof -
    obtain y s2 where sm: "storeMessage lib io c t = (y, s2)"
      by (cases "storeMessage lib io c t")
    have "envelopeEmpty s2"
      using that storeMessage_fields [of lib io c t] sm by (simp add: envelopeEmpty_def)
    then show ?thesis
      using sm by (cases y) simp_all
  qed
  have b: "envelopeEmpty (s\<lparr>bdatBuffer := x\<rparr>)" for x
    using e by (simp add: envelopeEmpty_def)
  have b2: "envelopeEmpty (s\<lparr>bdatBuffer := x, state := StateBdat\<rparr>)" for x
    by (simp add: envelopeEmpty_def)
  show ?thesis
    using e k [OF b] b2
    by (simp add: handleBdat_def Let_def split: option.splits list.splits sum.splits)
qed

lemma envelopeEmpty_dispatch:
  assumes "envelopeEmpty t" and "IsAllowedInState cmd (state t)"
  shows "envelopeEmpty (snd (dispatch lib io cmd t))"
proof (cases "Name cmd = ''STARTTLS''")
  case True
  then have "state t = StateHelo \<or> state t = StateMail"
    using assms(2) by (simp add: IsAllowedInState_def allowedStates_def)
  then show ?thesis
    using True envelopeEmpty_handleStartTLS [OF assms(1)] by (simp add: dispatch_def)
next
  case False
  then show ?thesis
    using assms(1)
    by (simp add: dispatch_def envelopeEmpty_handleHelo envelopeEmpty_handleAuth envelopeEmpty_handleMail
        envelopeEmpty_handleRcpt envelopeEmpty_handleData envelopeEmpty_handleBdat
        envelopeEmpty_handleRset envelopeEmpty_handleNoop envelopeEmpty_handleQuit
        envelopeEmpty_handleVrfy)
qed

lemma envelopeEmpty_handleCommand:
  assumes "envelopeEmpty s"
  shows "envelopeEmpty (snd (handleCommand lib io line s))"
proof (rule inv_handleCommand [where P = envelopeEmpty])
  show "envelopeEmpty a = envelopeEmpty b" if "offConn a = offConn b" for a b
    using that by (rule envelopeEmpty_cong)
  show "envelopeEmpty (a\<lparr>pipeliningMode := m\<rparr>) = envelopeEmpty a" for a m
    by simp
  show "envelopeEmpty (snd (dispatch lib io cmd t))"
    if "parseAndLogCommand lib line s = (Some cmd, None, s)" and "state t = state s"
      and "envelopeEmpty t" for cmd t
    using envelopeEmpty_dispatch [OF that(3), of cmd lib io] parseAndLogCommand_parsed [OF that(1)] that(2)
    by simp
  show "envelopeEmpty s"
    by (rule assms)
qed

lemma envelopeEmpty_runCommandLoop:
  "envelopeEmpty s \<Longrightarrow> envelopeEmpty (snd (runCommandLoop lib input s))"
proof (induction input arbitrary: s)
  case Nil
  then show ?case by simp
next
  case (Cons x input)
  obtain raw io where x: "x = (raw, io)"
    by (cases x)
  have i1: "envelopeEmpty (enterPipelining io s)"
    using Cons.prems by (simp add: enterPipelining_def)
  have hc: "envelopeEmpty (snd (handleCommand lib io (TrimSpace lib raw) (enterPipelining io s)))"
    using i1 by (rule envelopeEmpty_handleCommand)
  have w: "envelopeEmpty (snd (writeResponse lib ''500 Command too long'' s))"
    using Cons.prems by simp
  show ?case
  proof (cases "TrimSpace lib raw = []")
    case True
    then show ?thesis
      using Cons x by simp
  next
    case False
    show ?thesis
    proof (cases "length (TrimSpace lib raw) > MaxCommandLength")
      case True
      then show ?thesis
        using False x w Cons.IH
        by (cases "writeResponse lib ''500 Command too long'' s";
            cases "fst (writeResponse lib ''500 Command too long'' s)") (auto simp: Let_def)
    next
      case long: False
      show ?thesis
        using False long x hc Cons.IH
        by (cases "handleCommand lib io (TrimSpace lib raw) (enterPipelining io s)";
            cases "fst (handleCommand lib io (TrimSpace lib raw) (enterPipelining io s))")
           (auto simp: Let_def split: if_splits)
    qed
  qed
qed

lemma envelopeEmpty_Handle: "envelopeEmpty (snd (Handle lib input (NewSession cfg h tls)))"
proof -
  let ?s0 = "NewSession cfg h tls"
  have i0: "envelopeEmpty ?s0"
    by (simp add: envelopeEmpty_def NewSession_def)
  obtain e s1 where su: "setupSessionBehaviourAndGreet lib ?s0 = (e, s1)"
    by (cases "setupSessionBehaviourAndGreet lib ?s0")
  have g: "envelopeEmpty (snd (setupSessionBehaviourAndGreet lib ?s0))"
  proof (cases "DropImmediate (config ?s0) \<or> DropDelay (config ?s0) > 0")
    case True
    then show ?thesis
      using i0 by (auto simp: setupSessionBehaviourAndGreet_def)
  next
    case False
    obtain r where "setupSessionBehaviourAndGreet lib ?s0
                      = andThen (writeResponse lib r ?s0) (\<lambda>s1. (None, s1\<lparr>state := StateHelo\<rparr>))"
      using False by (auto simp: setupSessionBehaviourAndGreet_def Let_def)
    moreover have "envelopeEmpty (snd (andThen (writeResponse lib r ?s0) (\<lambda>s1. (None, s1\<lparr>state := StateHelo\<rparr>))))"
    proof (cases "writeResponse lib r ?s0")
      case (Pair x s2)
      have o: "offConn s2 = offConn ?s0"
        using writeResponse_offConn [of lib r ?s0] Pair by simp
      have "mailFrom s2 = [] \<and> rcptTo s2 = []"
        using offConn_eqD(3,4) [OF o] by (simp add: NewSession_def)
      then show ?thesis
        using Pair envelopeEmpty_cong [OF o] i0 by (cases x) (simp_all add: envelopeEmpty_def)
    qed
    ultimately show ?thesis
      by simp
  qed
  have i1: "envelopeEmpty s1"
    using g su by simp
  have "envelopeEmpty (snd (andThen (setupSessionBehaviourAndGreet lib ?s0) (runCommandLoop lib input)))"
    using su i1 envelopeEmpty_runCommandLoop [OF i1, of lib input] by (cases e) simp_all
  then show ?thesis
    by (simp add: Handle_def split_beta connClose_def envelopeEmpty_def)
qed

subsection \<open>HELO and EHLO through the command handler\<close>

lemma handleEhlo_heloName [simp]: "heloName (snd (handleEhlo lib h s)) = heloName s"
  by (simp add: handleEhlo_def buildEhloResponse_def Let_def split_beta)

lemma helo_parsed:
  assumes "ParseCommand lib line = Some c" and "Name c = ''EHLO'' \<or> Name c = ''HELO''"
    and "parseAndLogCommand lib line s = (Some cmd, None, s)"
  shows "dispatch lib io cmd t = handleHelo lib cmd t"
  using assms parseAndLogCommand_parsed [OF assms(3)] by (auto simp: dispatch_def)

lemma helo_through_handleCommand:
  assumes "ParseCommand lib line = Some c" and "Name c = ''EHLO'' \<or> Name c = ''HELO''"
  shows "mailFrom (snd (handleCommand lib io line s)) = mailFrom s
        \<and> rcptTo (snd (handleCommand lib io line s)) = rcptTo s
        \<and> pendingErrors (snd (handleCommand lib io line s)) = pendingErrors s
        \<and> authenticated (snd (handleCommand lib io line s)) = authenticated s
        \<and> tlsState (snd (handleCommand lib io line s)) = tlsState s"
proof (rule inv_handleCommand
    [where P = "\<lambda>t. mailFrom t = mailFrom s \<and> rcptTo t = rcptTo s \<and> pendingErrors t = pendingErrors s
                     \<and> authenticated t = authenticated s \<and> tlsState t = tlsState s"])
  show "(mailFrom a = mailFrom s \<and> rcptTo a = rcptTo s \<and> pendingErrors a = pendingErrors s
          \<and> authenticated a = authenticated s \<and> tlsState a = tlsState s)
        = (mailFrom b = mailFrom s \<and> rcptTo b = rcptTo s \<and> pendingErrors b = pendingErrors s
          \<and> authenticated b = authenticated s \<and> tlsState b = tlsState s)"
    if "offConn a = offConn b" for a b
    using offConn_eqD [OF that] pendingErrors_offConn [OF that] by simp
  show "(mailFrom (a\<lparr>pipeliningMode := m\<rparr>) = mailFrom s \<and> rcptTo (a\<lparr>pipeliningMode := m\<rparr>) = rcptTo s
          \<and> pendingErrors (a\<lparr>pipeliningMode := m\<rparr>) = pendingErrors s
          \<and> authenticated (a\<lparr>pipeliningMode := m\<rparr>) = authenticated s
          \<and> tlsState (a\<lparr>pipeliningMode := m\<rparr>) = tlsState s)
        = (mailFrom a = mailFrom s \<and> rcptTo a = rcptTo s \<and> pendingErrors a = pendingErrors s
          \<and> authenticated a = authenticated s \<and> tlsState a = tlsState s)" for a m
    by simp
  show "mailFrom (snd (dispatch lib io cmd t)) = mailFrom s
        \<and> rcptTo (snd (dispatch lib io cmd t)) = rcptTo s
        \<and> pendingErrors (snd (dispatch lib io cmd t)) = pendingErrors s
        \<and> authenticated (snd (dispatch lib io cmd t)) = authenticated s
        \<and> tlsState (snd (dispatch lib io cmd t)) = tlsState s"
    if "parseAndLogCommand lib line s = (Some cmd, None, s)" and "state t = state s"
      and "mailFrom t = mailFrom s \<and> rcptTo t = rcptTo s \<and> pendingErrors t = pendingErrors s
           \<and> authenticated t = authenticated s \<and> tlsState t = tlsState s" for cmd t
    using helo_parsed [OF assms that(1), of io t] handleHelo_keeps [of lib cmd t] that(3) by simp
  show "mailFrom s = mailFrom s \<and> rcptTo s = rcptTo s \<and> pendingErrors s = pendingErrors s
        \<and> authenticated s = authenticated s \<and> tlsState s = tlsState s"
    by simp
qed

lemma handleHelo_state:
  "state (snd (handleHelo lib cmd s)) = state s
   \<or> (state s = StateHelo \<and> state (snd (handleHelo lib cmd s)) = StateMail)"
  by (simp add: handleHelo_def Let_def split: list.splits option.splits)

lemma helo_state_change:
  assumes "ParseCommand lib line = Some c" and "Name c = ''EHLO'' \<or> Name c = ''HELO''"
    and "state (snd (handleCommand lib io line s)) \<noteq> state s"
  shows "state s = StateHelo \<and> state (snd (handleCommand lib io line s)) = StateMail"
proof -
  have "state (snd (handleCommand lib io line s)) = state s
        \<or> (state s = StateHelo \<and> state (snd (handleCommand lib io line s)) = StateMail)"
  proof (rule inv_handleCommand
      [where P = "\<lambda>t. state t = state s \<or> (state s = StateHelo \<and> state t = StateMail)"])
    show "(state a = state s \<or> (state s = StateHelo \<and> state a = StateMail))
          = (state b = state s \<or> (state s = StateHelo \<and> state b = StateMail))"
      if "offConn a = offConn b" for a b
      using offConn_eqD(1) [OF that] by simp
    show "(state (a\<lparr>pipeliningMode := m\<rparr>) = state s
            \<or> (state s = StateHelo \<and> state (a\<lparr>pipeliningMode := m\<rparr>) = StateMail))
          = (state a = state s \<or> (state s = StateHelo \<and> state a = StateMail))" for a m
      by simp
    show "state (snd (dispatch lib io cmd t)) = state s
          \<or> (state s = StateHelo \<and> state (snd (dispatch lib io cmd t)) = StateMail)"
      if "parseAndLogCommand lib line s = (Some cmd, None, s)" and "state t = state s"
        and "state t = state s \<or> (state s = StateHelo \<and> state t = StateMail)" for cmd t
      using helo_parsed [OF assms(1,2) that(1), of io t] handleHelo_state [of lib cmd t] that(2) by auto
    show "state s = state s \<or> (state s = StateHelo \<and> state s = StateMail)"
      by simp
  qed
  then show ?thesis
    using assms(3) by blast
qed

lemma helo_accepted:
  assumes "ParseCommand lib line = Some c" and "Name c = ''EHLO'' \<or> Name c = ''HELO''"
    and "Args c = host # rest" and "state s = StateHelo" and "ExtractHeloError lib host = None"
  shows "state (snd (handleCommand lib io line s)) = StateMail
         \<and> heloName (snd (handleCommand lib io line s)) = host"
proof -
  have acc: "parseAndLogCommand lib line s = (Some c, None, s)"
    using assms(1-4)
    by (intro parseAndLogCommand_accepted)
       (auto simp: IsValid_def IsAllowedInState_def allowedStates_def ValidateArgs_def)
  have nb: "\<not> breaksPipelining (Name c)"
    using assms(2) by (auto simp: breaksPipelining_def)
  have d: "dispatch lib io c s = handleHelo lib c s"
    using assms(2) by (auto simp: dispatch_def)
  have st: "state (snd (handleHelo lib c s)) = StateMail \<and> heloName (snd (handleHelo lib c s)) = host"
    using assms(3,4,5) by (simp add: handleHelo_def Let_def)
  obtain e s3 where h: "handleHelo lib c s = (e, s3)"
    by (cases "handleHelo lib c s")
  have "snd (handleCommand lib io line s) = (if e \<noteq> None then snd (flushAndReturn e s3) else s3)"
    using handleCommand_nonbreaking [OF acc nb, of io] d h by simp
  then show ?thesis
    using st h by (cases e) simp_all
qed

subsection \<open>C1: errors scheduled by MAIL FROM\<close>




subsection \<open>C2: a 421 response ends the session\<close>

text \<open>
  C2. A response that starts with the code 421 is recognised as a 421. Writing a 421, in
  pipelining mode or not, first writes the queued responses in order, then the 421 line,
  closes the connection and returns \<open>EOF\<close> (the peer taking the writes). A command that
  closes the connection returns an error, and an error returned by a command ends the command
  loop at once, in pipelining mode or not: the lines that follow are not handled. The 421
  of a shutdown (\<open>CloseWith421\<close>) likewise follows the queued responses and closes the
  connection. Hence in every run of a session every payload on the wire that starts with
  \<open>421\<close> is the last one.
\<close>

theorem response_421_is_last:
  "(HasPrefix r ''421'' \<longrightarrow> isResponse421 lib r)
   \<and> (isResponse421 lib r \<and> (pipeliningMode s \<or> responseQueue s = [])
        \<and> canWrite (Suc (length (responseQueue s))) s \<longrightarrow>
      writeResponse lib r s
        = (Some EOF,
           s\<lparr>wire := wire s @ map (\<lambda>q. q @ CRLF) (responseQueue s) @ [r @ CRLF],
             writeBudget := map_option (\<lambda>b. b - Suc (length (responseQueue s))) (writeBudget s),
             responseQueue := [], connClosed := True\<rparr>))
   \<and> (sessionInv lib s \<longrightarrow> sessionInv lib (snd (handleCommand lib io line s)))
   \<and> (sessionInv lib s \<and> \<not> connClosed s \<and> connClosed (snd (handleCommand lib io line s)) \<longrightarrow>
      fst (handleCommand lib io line s) \<noteq> None)
   \<and> (TrimSpace lib raw \<noteq> [] \<and> length (TrimSpace lib raw) \<le> MaxCommandLength
        \<and> fst (handleCommand lib io (TrimSpace lib raw) (enterPipelining io s)) = Some err \<longrightarrow>
      runCommandLoop lib ((raw, io) # rest) s
        = (if err = EOF then None else Some err,
           snd (handleCommand lib io (TrimSpace lib raw) (enterPipelining io s))))
   \<and> (sessionInv lib s \<longrightarrow>
      sessionInv lib (snd (CloseWith421 closeErr reason s))
      \<and> connClosed (snd (CloseWith421 closeErr reason s)))
   \<and> (canWrite (Suc (length (responseQueue s))) s \<longrightarrow>
      wire (snd (CloseWith421 closeErr reason s))
        = wire s @ map (\<lambda>q. q @ CRLF) (responseQueue s)
            @ [''421 '' @ (if reason \<noteq> [] then reason else GetErrorMessage Code421) @ CRLF])
   \<and> (\<forall>i. i < length (wire (snd (Handle lib input (NewSession cfg h tls))))
            \<and> HasPrefix (wire (snd (Handle lib input (NewSession cfg h tls))) ! i) ''421'' \<longrightarrow>
          Suc i = length (wire (snd (Handle lib input (NewSession cfg h tls)))))"
proof -
  have p1: "HasPrefix r ''421'' \<longrightarrow> isResponse421 lib r"
    using isResponse421_prefix by blast
  have p2: "writeResponse lib r s
        = (Some EOF,
           s\<lparr>wire := wire s @ map (\<lambda>q. q @ CRLF) (responseQueue s) @ [r @ CRLF],
             writeBudget := map_option (\<lambda>b. b - Suc (length (responseQueue s))) (writeBudget s),
             responseQueue := [], connClosed := True\<rparr>)"
    if is421: "isResponse421 lib r" and q: "pipeliningMode s \<or> responseQueue s = []"
      and cw: "canWrite (Suc (length (responseQueue s))) s"
  proof (cases "pipeliningMode s")
    case True
    have c0: "canWrite (length (responseQueue s)) s"
      using cw by (auto simp: canWrite_def split: option.splits)
    have w: "connWrite (r @ CRLF) (flushedSession s)
               = (None, (flushedSession s)
                    \<lparr>wire := wire (flushedSession s) @ [r @ CRLF],
                     writeBudget := map_option (\<lambda>n. n - 1) (writeBudget (flushedSession s))\<rparr>)"
      using cw by (auto simp: connWrite_def canWrite_def flushedSession_def split: option.splits)
    have "writeResponse lib r s
            = (Some EOF, connClose ((flushedSession s)
                    \<lparr>wire := wire (flushedSession s) @ [r @ CRLF],
                     writeBudget := map_option (\<lambda>n. n - 1) (writeBudget (flushedSession s))\<rparr>))"
      using True is421 by (simp add: writeResponse_def flushResponses_ok [OF c0] w)
    then show ?thesis
      by (cases "writeBudget s") (simp_all add: connClose_def flushedSession_def)
  next
    case False
    then have e: "responseQueue s = []"
      using q by simp
    have w: "connWrite (r @ CRLF) s
               = (None, s\<lparr>wire := wire s @ [r @ CRLF],
                            writeBudget := map_option (\<lambda>n. n - 1) (writeBudget s)\<rparr>)"
      using cw by (auto simp: connWrite_def canWrite_def split: option.splits)
    show ?thesis
      using False is421 e by (cases "writeBudget s") (simp_all add: writeResponse_def w connClose_def)
  qed
  have p3: "sessionInv lib s \<longrightarrow> sessionInv lib (snd (handleCommand lib io line s))"
    and p4: "sessionInv lib s \<and> \<not> connClosed s \<and> connClosed (snd (handleCommand lib io line s)) \<longrightarrow>
      fst (handleCommand lib io line s) \<noteq> None"
    using okW_handleCommand [of lib s io line] unfolding okW_def by blast+
  have p5: "TrimSpace lib raw \<noteq> [] \<and> length (TrimSpace lib raw) \<le> MaxCommandLength
        \<and> fst (handleCommand lib io (TrimSpace lib raw) (enterPipelining io s)) = Some err \<longrightarrow>
      runCommandLoop lib ((raw, io) # rest) s
        = (if err = EOF then None else Some err,
           snd (handleCommand lib io (TrimSpace lib raw) (enterPipelining io s)))"
    using runCommandLoop_stops [of lib raw io s err rest] by blast
  have p7: "sessionInv lib s \<longrightarrow>
      sessionInv lib (snd (CloseWith421 closeErr reason s))
      \<and> connClosed (snd (CloseWith421 closeErr reason s))"
    using sessionInv_CloseWith421 [of lib s closeErr reason] by blast
  have p8: "canWrite (Suc (length (responseQueue s))) s \<longrightarrow>
      wire (snd (CloseWith421 closeErr reason s))
        = wire s @ map (\<lambda>q. q @ CRLF) (responseQueue s)
            @ [''421 '' @ (if reason \<noteq> [] then reason else GetErrorMessage Code421) @ CRLF]"
    using CloseWith421_ok [of s closeErr reason] by blast
  let ?w = "wire (snd (Handle lib input (NewSession cfg h tls)))"
  have bl: "list_all (\<lambda>w. \<not> HasPrefix w ''421'') (butlast ?w)"
    using sessionInv_Handle [of lib input cfg h tls] by (auto simp: sessionInv_def split: if_splits)
  have p6: "\<forall>i. i < length ?w \<and> HasPrefix (?w ! i) ''421'' \<longrightarrow> Suc i = length ?w"
  proof (intro allI impI)
    fix i
    assume a: "i < length ?w \<and> HasPrefix (?w ! i) ''421''"
    show "Suc i = length ?w"
    proof (rule ccontr)
      assume "Suc i \<noteq> length ?w"
      then have lt: "i < length (butlast ?w)"
        using a by (simp only: length_butlast) linarith
      then have "butlast ?w ! i \<in> set (butlast ?w)"
        by (rule nth_mem)
      then have "\<not> HasPrefix (butlast ?w ! i) ''421''"
        using bl by (simp add: list_all_iff)
      then show False
        using a lt by (simp add: nth_butlast)
    qed
  qed
  show ?thesis
    using p1 p2 p3 p4 p5 p6 p7 p8 by blast
qed

theorem response_421_is_last_witness:
  "HasPrefix ''421 Service not available, closing transmission channel'' ''421''
   \<and> isResponse421 exampleLib ''421 Service not available, closing transmission channel''
   \<and> canWrite 2 ((exampleSession StateRcpt)\<lparr>pipeliningMode := True, responseQueue := [''250 OK'']\<rparr>)
   \<and> fst (writeResponse exampleLib ''421 Service not available, closing transmission channel''
             ((exampleSession StateRcpt)\<lparr>pipeliningMode := True, responseQueue := [''250 OK'']\<rparr>))
       = Some EOF
   \<and> wire (snd (writeResponse exampleLib ''421 Service not available, closing transmission channel''
             ((exampleSession StateRcpt)\<lparr>pipeliningMode := True, responseQueue := [''250 OK'']\<rparr>)))
       = [''250 OK'' @ CRLF, ''421 Service not available, closing transmission channel'' @ CRLF]
   \<and> connClosed (snd (writeResponse exampleLib ''421 Service not available, closing transmission channel''
             ((exampleSession StateRcpt)\<lparr>pipeliningMode := True, responseQueue := [''250 OK'']\<rparr>)))
   \<and> HasPrefix (wire (snd (Handle exampleLib
          [(''EHLO c.example'', exampleIO), (''MAIL FROM:<rset421@x.com>'', exampleIO),
           (''RSET'', exampleIO), (''NOOP'', exampleIO)]
          (NewSession exampleConfig [] False))) ! 3) ''421''
   \<and> length (wire (snd (Handle exampleLib
          [(''EHLO c.example'', exampleIO), (''MAIL FROM:<rset421@x.com>'', exampleIO),
           (''RSET'', exampleIO), (''NOOP'', exampleIO)]
          (NewSession exampleConfig [] False)))) = Suc 3
   \<and> fst (handleCommand exampleLib exampleIO (TrimSpace exampleLib ''RSET'')
             (enterPipelining exampleIO
                ((exampleSession StateRcpt)
                   \<lparr>rsetErrorResult := Some \<lparr>Code = 421, Enhanced = [], Message = []\<rparr>\<rparr>)))
       = Some EOF
   \<and> fst (runCommandLoop exampleLib [(''RSET'', exampleIO), (''NOOP'', exampleIO)]
             ((exampleSession StateRcpt)
                \<lparr>rsetErrorResult := Some \<lparr>Code = 421, Enhanced = [], Message = []\<rparr>\<rparr>)) = None
   \<and> wire (snd (runCommandLoop exampleLib [(''RSET'', exampleIO), (''NOOP'', exampleIO)]
             ((exampleSession StateRcpt)
                \<lparr>rsetErrorResult := Some \<lparr>Code = 421, Enhanced = [], Message = []\<rparr>\<rparr>)))
       = [''421 Service not available, closing transmission channel'' @ CRLF]
   \<and> sessionInv exampleLib
         ((exampleSession StateRcpt)\<lparr>pipeliningMode := True, responseQueue := [''250 OK'']\<rparr>)
   \<and> sessionInv exampleLib (snd (CloseWith421 False ''Service shutting down''
         ((exampleSession StateRcpt)\<lparr>pipeliningMode := True, responseQueue := [''250 OK'']\<rparr>)))
   \<and> wire (snd (CloseWith421 False ''Service shutting down''
         ((exampleSession StateRcpt)\<lparr>pipeliningMode := True, responseQueue := [''250 OK'']\<rparr>)))
       = [''250 OK'' @ CRLF, ''421 Service shutting down'' @ CRLF]"
proof -
  let ?r = "''421 Service not available, closing transmission channel''"
  let ?s = "(exampleSession StateRcpt)\<lparr>pipeliningMode := True, responseQueue := [''250 OK'']\<rparr>"
  let ?input = "[(''EHLO c.example'', exampleIO), (''MAIL FROM:<rset421@x.com>'', exampleIO),
                 (''RSET'', exampleIO), (''NOOP'', exampleIO)]"
  let ?sf = "snd (Handle exampleLib ?input (NewSession exampleConfig [] False))"
  let ?sR = "(exampleSession StateRcpt)\<lparr>rsetErrorResult := Some \<lparr>Code = 421, Enhanced = [], Message = []\<rparr>\<rparr>"
  let ?hc = "handleCommand exampleLib exampleIO (TrimSpace exampleLib ''RSET'') (enterPipelining exampleIO ?sR)"
  note inst = response_421_is_last [where r = "?r" and s = "?s" and lib = exampleLib and input = "?input"
      and cfg = exampleConfig and h = "[]" and tls = False and closeErr = False
      and reason = "''Service shutting down''"]
  note inst2 = response_421_is_last [where s = "?sR" and lib = exampleLib and raw = "''RSET''"
      and io = exampleIO and err = EOF and rest = "[(''NOOP'', exampleIO)]"]
  have h1: "HasPrefix ?r ''421''"
    by code_simp
  have c1: "isResponse421 exampleLib ?r"
    using inst h1 by blast
  have h2: "(pipeliningMode ?s \<or> responseQueue ?s = []) \<and> canWrite (Suc (length (responseQueue ?s))) ?s"
    and h2': "canWrite 2 ?s"
    by code_simp+
  have c2: "writeResponse exampleLib ?r ?s
              = (Some EOF,
                 ?s\<lparr>wire := wire ?s @ map (\<lambda>q. q @ CRLF) (responseQueue ?s) @ [?r @ CRLF],
                    writeBudget := map_option (\<lambda>b. b - Suc (length (responseQueue ?s))) (writeBudget ?s),
                    responseQueue := [], connClosed := True\<rparr>)"
    using inst c1 h2 by blast
  have wv: "wire ?s @ map (\<lambda>q. q @ CRLF) (responseQueue ?s) @ [?r @ CRLF] = [''250 OK'' @ CRLF, ?r @ CRLF]"
    by code_simp
  have c2a: "fst (writeResponse exampleLib ?r ?s) = Some EOF"
    and c2b: "wire (snd (writeResponse exampleLib ?r ?s)) = [''250 OK'' @ CRLF, ?r @ CRLF]"
    and c2c: "connClosed (snd (writeResponse exampleLib ?r ?s))"
    using wv by (simp_all only: c2 fst_conv snd_conv) simp_all
  have h3: "3 < length (wire ?sf)" and h3': "HasPrefix (wire ?sf ! 3) ''421''"
    by code_simp+
  have c3: "Suc 3 = length (wire ?sf)"
    using inst h3 h3' by blast
  have h5: "TrimSpace exampleLib ''RSET'' \<noteq> []"
    and h5': "length (TrimSpace exampleLib ''RSET'') \<le> MaxCommandLength"
    and h5'': "fst ?hc = Some EOF"
    by code_simp+
  have c5: "runCommandLoop exampleLib ((''RSET'', exampleIO) # [(''NOOP'', exampleIO)]) ?sR
              = (if EOF = EOF then None else Some EOF, snd ?hc)"
    using inst2 h5 h5' h5'' by blast
  have wr: "wire (snd ?hc) = [?r @ CRLF]"
    by code_simp
  have c5a: "fst (runCommandLoop exampleLib [(''RSET'', exampleIO), (''NOOP'', exampleIO)] ?sR) = None"
    and c5b: "wire (snd (runCommandLoop exampleLib [(''RSET'', exampleIO), (''NOOP'', exampleIO)] ?sR))
                = [?r @ CRLF]"
    using wr by (simp_all only: c5 fst_conv snd_conv) simp_all
  have h7: "sessionInv exampleLib ?s"
    by code_simp
  have c7: "sessionInv exampleLib (snd (CloseWith421 False ''Service shutting down'' ?s))"
    using inst h7 by blast
  have c8: "wire (snd (CloseWith421 False ''Service shutting down'' ?s))
              = wire ?s @ map (\<lambda>q. q @ CRLF) (responseQueue ?s)
                  @ [''421 '' @ (if ''Service shutting down'' \<noteq> [] then ''Service shutting down''
                                 else GetErrorMessage Code421) @ CRLF]"
    using inst h2 by blast
  have wc: "wire ?s @ map (\<lambda>q. q @ CRLF) (responseQueue ?s)
                  @ [''421 '' @ (if ''Service shutting down'' \<noteq> [] then ''Service shutting down''
                                 else GetErrorMessage Code421) @ CRLF]
              = [''250 OK'' @ CRLF, ''421 Service shutting down'' @ CRLF]"
    by code_simp
  have c8': "wire (snd (CloseWith421 False ''Service shutting down'' ?s))
               = [''250 OK'' @ CRLF, ''421 Service shutting down'' @ CRLF]"
    using c8 wc by (rule trans)
  show ?thesis
    using h1 c1 h2' c2a c2b c2c h3' c3 [symmetric] h5'' c5a c5b h7 c7 c8' by (intro conjI)
qed

subsection \<open>C3: what EHLO leaves alone\<close>

text \<open>
  C3 (amended). Handling HELO or EHLO clears nothing: \<open>mailFrom\<close>, \<open>rcptTo\<close> and the six
  pending-error slots are left exactly as they were, and the authenticated flag and the TLS
  status are preserved. In state HELO, the only state in which the handler accepts the
  command, a host name without an error pattern moves the state to MAIL and is recorded as
  \<open>heloName\<close>. In every session run by \<open>Handle\<close> the envelope is empty whenever the state is
  GREETING, HELO, MAIL or AUTH, so \<open>mailFrom\<close> and \<open>rcptTo\<close> are empty before and after a
  successful EHLO; the pending-error slots are whatever they were before.
\<close>

theorem handleHelo_frame:
  "(mailFrom (snd (handleHelo lib cmd s)) = mailFrom s
    \<and> rcptTo (snd (handleHelo lib cmd s)) = rcptTo s
    \<and> pendingErrors (snd (handleHelo lib cmd s)) = pendingErrors s
    \<and> authenticated (snd (handleHelo lib cmd s)) = authenticated s
    \<and> tlsState (snd (handleHelo lib cmd s)) = tlsState s)
   \<and> (ParseCommand lib line = Some c \<and> (Name c = ''EHLO'' \<or> Name c = ''HELO'') \<longrightarrow>
        mailFrom (snd (handleCommand lib io line s)) = mailFrom s
        \<and> rcptTo (snd (handleCommand lib io line s)) = rcptTo s
        \<and> pendingErrors (snd (handleCommand lib io line s)) = pendingErrors s
        \<and> authenticated (snd (handleCommand lib io line s)) = authenticated s
        \<and> tlsState (snd (handleCommand lib io line s)) = tlsState s)
   \<and> (ParseCommand lib line = Some c \<and> (Name c = ''EHLO'' \<or> Name c = ''HELO'')
        \<and> state (snd (handleCommand lib io line s)) \<noteq> state s \<longrightarrow>
        state s = StateHelo \<and> state (snd (handleCommand lib io line s)) = StateMail)
   \<and> (ParseCommand lib line = Some c \<and> (Name c = ''EHLO'' \<or> Name c = ''HELO'') \<and> Args c = host # rest
        \<and> state s = StateHelo \<and> ExtractHeloError lib host = None \<longrightarrow>
        state (snd (handleCommand lib io line s)) = StateMail
        \<and> heloName (snd (handleCommand lib io line s)) = host)
   \<and> (envelopeEmpty s \<longrightarrow> envelopeEmpty (snd (handleCommand lib io line s)))
   \<and> envelopeEmpty (snd (Handle lib input (NewSession cfg h tls)))
   \<and> (envelopeEmpty s \<and> state s = StateHelo \<and> ParseCommand lib line = Some c
        \<and> (Name c = ''EHLO'' \<or> Name c = ''HELO'') \<longrightarrow>
        mailFrom (snd (handleCommand lib io line s)) = []
        \<and> rcptTo (snd (handleCommand lib io line s)) = [])"
proof -
  note p1 = handleHelo_keeps [of lib cmd s]
  have p2: "mailFrom (snd (handleCommand lib io line s)) = mailFrom s
        \<and> rcptTo (snd (handleCommand lib io line s)) = rcptTo s
        \<and> pendingErrors (snd (handleCommand lib io line s)) = pendingErrors s
        \<and> authenticated (snd (handleCommand lib io line s)) = authenticated s
        \<and> tlsState (snd (handleCommand lib io line s)) = tlsState s"
    if "ParseCommand lib line = Some c" and "Name c = ''EHLO'' \<or> Name c = ''HELO''"
    using that by (rule helo_through_handleCommand)
  have p3: "state s = StateHelo \<and> state (snd (handleCommand lib io line s)) = StateMail"
    if "ParseCommand lib line = Some c" and "Name c = ''EHLO'' \<or> Name c = ''HELO''"
      and "state (snd (handleCommand lib io line s)) \<noteq> state s"
    using that by (rule helo_state_change)
  have p4: "state (snd (handleCommand lib io line s)) = StateMail
        \<and> heloName (snd (handleCommand lib io line s)) = host"
    if "ParseCommand lib line = Some c" and "Name c = ''EHLO'' \<or> Name c = ''HELO''"
      and "Args c = host # rest" and "state s = StateHelo" and "ExtractHeloError lib host = None"
    using that by (rule helo_accepted)
  have p5: "envelopeEmpty s \<longrightarrow> envelopeEmpty (snd (handleCommand lib io line s))"
    using envelopeEmpty_handleCommand [of s lib io line] by blast
  note p6 = envelopeEmpty_Handle [of lib input cfg h tls]
  have p7: "mailFrom (snd (handleCommand lib io line s)) = []
        \<and> rcptTo (snd (handleCommand lib io line s)) = []"
    if "envelopeEmpty s" and "state s = StateHelo" and "ParseCommand lib line = Some c"
      and "Name c = ''EHLO'' \<or> Name c = ''HELO''"
    using p2 [OF that(3,4)] that(1,2) by (simp add: envelopeEmpty_def)
  show ?thesis
    using p1 p2 p3 p4 p5 p6 p7 by blast
qed

theorem handleHelo_frame_witness:
  "ParseCommand exampleLib ''EHLO c.example'' = Some \<lparr>Name = ''EHLO'', Args = [''c.example'']\<rparr>
   \<and> state ((exampleSession StateHelo)
               \<lparr>tlsState := Some (),
                noopErrorResult := Some \<lparr>Code = 550, Enhanced = [], Message = []\<rparr>\<rparr>) = StateHelo
   \<and> ExtractHeloError exampleLib ''c.example'' = None
   \<and> pendingErrors (snd (handleCommand exampleLib exampleIO ''EHLO c.example''
         ((exampleSession StateHelo)
            \<lparr>tlsState := Some (), noopErrorResult := Some \<lparr>Code = 550, Enhanced = [], Message = []\<rparr>\<rparr>)))
       = [None, None, None, None, Some \<lparr>Code = 550, Enhanced = [], Message = []\<rparr>, None]
   \<and> tlsState (snd (handleCommand exampleLib exampleIO ''EHLO c.example''
         ((exampleSession StateHelo)
            \<lparr>tlsState := Some (), noopErrorResult := Some \<lparr>Code = 550, Enhanced = [], Message = []\<rparr>\<rparr>)))
       = Some ()
   \<and> state (snd (handleCommand exampleLib exampleIO ''EHLO c.example''
         ((exampleSession StateHelo)
            \<lparr>tlsState := Some (), noopErrorResult := Some \<lparr>Code = 550, Enhanced = [], Message = []\<rparr>\<rparr>)))
       = StateMail
   \<and> heloName (snd (handleCommand exampleLib exampleIO ''EHLO c.example''
         ((exampleSession StateHelo)
            \<lparr>tlsState := Some (), noopErrorResult := Some \<lparr>Code = 550, Enhanced = [], Message = []\<rparr>\<rparr>)))
       = ''c.example''
   \<and> mailFrom (snd (handleCommand exampleLib exampleIO ''EHLO c.example''
         ((exampleSession StateHelo)
            \<lparr>tlsState := Some (), noopErrorResult := Some \<lparr>Code = 550, Enhanced = [], Message = []\<rparr>\<rparr>)))
       = []
   \<and> rcptTo (snd (handleCommand exampleLib exampleIO ''EHLO c.example''
         ((exampleSession StateHelo)
            \<lparr>tlsState := Some (), noopErrorResult := Some \<lparr>Code = 550, Enhanced = [], Message = []\<rparr>\<rparr>)))
       = []"
proof -
  let ?s = "(exampleSession StateHelo)
              \<lparr>tlsState := Some (), noopErrorResult := Some \<lparr>Code = 550, Enhanced = [], Message = []\<rparr>\<rparr>"
  let ?c = "\<lparr>Name = ''EHLO'', Args = [''c.example'']\<rparr>"
  let ?r = "snd (handleCommand exampleLib exampleIO ''EHLO c.example'' ?s)"
  note inst = handleHelo_frame [where lib = exampleLib and io = exampleIO and line = "''EHLO c.example''"
      and c = "?c" and s = "?s" and host = "''c.example''" and rest = "[]"]
  have pE: "ParseCommand exampleLib ''EHLO c.example'' = Some ?c"
    by code_simp
  have nE: "Name ?c = ''EHLO'' \<or> Name ?c = ''HELO''"
    and aE: "Args ?c = ''c.example'' # []"
    by simp_all
  have stE: "state ?s = StateHelo"
    and hE: "ExtractHeloError exampleLib ''c.example'' = None"
    and envE: "envelopeEmpty ?s"
    by code_simp+
  have pe: "pendingErrors ?s = [None, None, None, None, Some \<lparr>Code = 550, Enhanced = [], Message = []\<rparr>, None]"
    and tl: "tlsState ?s = Some ()"
    by code_simp+
  note k2 = inst [THEN conjunct2, THEN conjunct1, rule_format, OF conjI [OF pE nE]]
  note k4 = inst [THEN conjunct2, THEN conjunct2, THEN conjunct2, THEN conjunct1, rule_format,
      OF conjI [OF pE conjI [OF nE conjI [OF aE conjI [OF stE hE]]]]]
  note k7 = inst [THEN conjunct2, THEN conjunct2, THEN conjunct2, THEN conjunct2, THEN conjunct2,
      THEN conjunct2, rule_format, OF conjI [OF envE conjI [OF stE conjI [OF pE nE]]]]
  have c1: "pendingErrors ?r = [None, None, None, None, Some \<lparr>Code = 550, Enhanced = [], Message = []\<rparr>, None]"
    using k2 [THEN conjunct2, THEN conjunct2, THEN conjunct1] pe by (rule trans)
  have c2: "tlsState ?r = Some ()"
    using k2 [THEN conjunct2, THEN conjunct2, THEN conjunct2, THEN conjunct2] tl by (rule trans)
  show ?thesis
    using pE stE hE c1 c2 k4 [THEN conjunct1] k4 [THEN conjunct2] k7 [THEN conjunct1] k7 [THEN conjunct2]
    by (intro conjI)
qed

text \<open>
  C3 as stated fails. After \<open>MAIL FROM:<noop550@x.com>\<close>, \<open>RSET\<close> and a successful \<open>STARTTLS\<close>
  the session is in state HELO with the NOOP error still stored (the command loop goes on
  reading lines from the reader it created before the handshake). The second \<open>EHLO\<close>
  succeeds, its multi-line 250 response is written and the state is MAIL, and the pending
  NOOP error is still there: the NOOP that follows is answered \<open>550\<close>.
\<close>

theorem ehlo_keeps_pending_counterexample:
  "outcome (Handle exampleLib
      [(''EHLO c.example'', exampleIO), (''MAIL FROM:<noop550@x.com>'', exampleIO),
       (''RSET'', exampleIO), (''STARTTLS'', exampleIO), (''EHLO c.example'', exampleIO),
       (''NOOP'', exampleIO)]
      (NewSession exampleConfig [] False))
   = (None, StateMail, ''c.example'', [], [],
      [None, None, None, None,
       Some \<lparr>Code = 550, Enhanced = [],
             Message = ''550 Requested action not taken: mailbox unavailable''\<rparr>, None],
      True,
      [''250 OK'' @ CRLF, ''250 OK'' @ CRLF, ''220 Ready to start TLS'' @ CRLF,
       Join [''250-badsmtp.test'', ''250-AUTH PLAIN LOGIN CRAM-MD5 CRAM-SHA256 XOAUTH2'',
             ''250-8BITMIME'', ''250-SIZE 10485760'', ''250-PIPELINING'', ''250-STARTTLS'',
             ''250-CHUNKING'', ''250-SMTPUTF8'', ''250-ENHANCEDSTATUSCODES'', ''250 OK''] CRLF @ CRLF,
       ''550 Requested action not taken: mailbox unavailable'' @ CRLF],
      [], False, [])"
  by code_simp

subsection \<open>C4: a DATA body over the size limit\<close>

text \<open>
  C4. The code does not do what the claim says. With SIZE 1000 negotiated, a DATA body of
  1001 bytes makes \<open>readMessageContent\<close> return an error that \<open>handleData\<close> passes on: the last
  payload on the wire is the \<open>354\<close> prompt, no \<open>552\<close> is sent, the session ends with the error
  in state DATA and the store is not called. The BDAT path, given a chunk of 1001 bytes,
  replies \<open>552\<close> and carries on.
\<close>

theorem data_overflow_ends_session:
  "outcome (Handle exampleLib
      [(''EHLO size1000.example.com'', exampleIO), (''MAIL FROM:<a@x.com>'', exampleIO),
       (''RCPT TO:<b@y.com>'', exampleIO),
       (''DATA'', exampleIO\<lparr>dotBytes := Some (replicate 1001 (CHR ''a''))\<rparr>)]
      (NewSession exampleConfig [] False))
   = (Some (ErrMessageSize 1000), StateData, ''size1000.example.com'', ''a@x.com'', [''b@y.com''],
      [None, None, None, None, None, None], False,
      [''250 OK'' @ CRLF, ''250 OK'' @ CRLF, ''354 End data with <CR><LF>.<CR><LF>'' @ CRLF],
      [], False, [])
   \<and> outcome (Handle exampleLib
      [(''EHLO size1000.example.com'', exampleIO), (''MAIL FROM:<a@x.com>'', exampleIO),
       (''RCPT TO:<b@y.com>'', exampleIO), (''BDAT 1001 LAST'', exampleIO)]
      (NewSession exampleConfig [] False))
   = (None, StateRcpt, ''size1000.example.com'', ''a@x.com'', [''b@y.com''],
      [None, None, None, None, None, None], False,
      [''250 OK'' @ CRLF, ''250 OK'' @ CRLF,
       ''552 Message size exceeds fixed maximum of 1000 bytes'' @ CRLF],
      [], False, [])"
  by (intro conjI; code_simp)

subsection \<open>C5: STARTTLS\<close>




subsection \<open>C6: RSET\<close>

text \<open>
  C6. The code does not do what the claim says. After a first BDAT chunk the session is in
  state BDAT, and RSET is refused there with \<open>503\<close>: the state stays BDAT and the envelope is
  kept. And where RSET is accepted it does not clear the pending-error slots: after
  \<open>MAIL FROM:<noop550@x.com>\<close> and \<open>RSET\<close> the NOOP error is still pending.
\<close>

theorem rset_refused_in_bdat_state:
  "outcome (Handle exampleLib
      [(''EHLO c.example'', exampleIO), (''MAIL FROM:<a@x.com>'', exampleIO),
       (''RCPT TO:<b@y.com>'', exampleIO), (''BDAT 5'', exampleIO), (''RSET'', exampleIO)]
      (NewSession exampleConfig [] False))
   = (None, StateBdat, ''c.example'', ''a@x.com'', [''b@y.com''],
      [None, None, None, None, None, None], False,
      [''250 OK'' @ CRLF, ''250 OK'' @ CRLF, ''250 OK'' @ CRLF,
       ''503 Bad sequence - RSET not allowed in BDAT state'' @ CRLF],
      [], False, [])
   \<and> outcome (Handle exampleLib
      [(''EHLO c.example'', exampleIO), (''MAIL FROM:<noop550@x.com>'', exampleIO),
       (''RSET'', exampleIO), (''NOOP'', exampleIO)]
      (NewSession exampleConfig [] False))
   = (None, StateMail, ''c.example'', [], [],
      [None, None, None, None,
       Some \<lparr>Code = 550, Enhanced = [],
             Message = ''550 Requested action not taken: mailbox unavailable''\<rparr>, None],
      False,
      [''250 OK'' @ CRLF, ''250 OK'' @ CRLF,
       ''550 Requested action not taken: mailbox unavailable'' @ CRLF],
      [], False, [])"
  by (intro conjI; code_simp)

subsection \<open>C7: pipelining-breaking commands\<close>




subsection \<open>C8: the text of a synthetic error\<close>

text \<open>
  C8. The code does not do what the claim says for a code below 100. The pattern takes the
  three digits \<open>007\<close>, \<open>Atoi\<close> turns them into the number 7, and \<open>formatErrorResult\<close> prints the
  number with \<open>%d\<close>: the response to \<open>MAIL FROM:<mail007@x.com>\<close> is \<open>7 Unknown error\<close>, and with
  an enhanced triple \<open>42 5.1.1 Unknown error\<close>, although the comment in \<open>formatErrorResult\<close>
  promises a 3-digit response code first. A code of three significant digits is printed as
  the claim says.
\<close>

theorem formatErrorResult_short_code:
  "ExtractMailFromError exampleLib ''mail007@x.com''
     = Some \<lparr>Code = 7, Enhanced = [], Message = ''7 Unknown error''\<rparr>
   \<and> formatErrorResult (exampleSession StateMail) \<lparr>Code = 7, Enhanced = [], Message = ''7 Unknown error''\<rparr>
     = ''7 Unknown error''
   \<and> outcome (Handle exampleLib
      [(''EHLO c.example'', exampleIO), (''MAIL FROM:<mail007@x.com>'', exampleIO),
       (''MAIL FROM:<mail042_5.1.1@x.com>'', exampleIO), (''MAIL FROM:<mail550@x.com>'', exampleIO)]
      (NewSession exampleConfig [] False))
   = (None, StateMail, ''c.example'', [], [], [None, None, None, None, None, None], False,
      [''7 Unknown error'' @ CRLF, ''42 5.1.1 Unknown error'' @ CRLF,
       ''550 Requested action not taken: mailbox unavailable'' @ CRLF],
      [], False, [])"
  by (intro conjI; code_simp)

subsection \<open>C9: the advertised SIZE\<close>




subsection \<open>C10: recipients that match the rcpt error pattern\<close>



end
